theory Spec2Isabelle
  imports Main "HOL-Library.Sublist"
begin

section \<open>JavaScript values and strings\<close>

text \<open>
  The program is a Node script: it parses a JSON document into \<^verbatim>\<open>portfolioData\<close> and
  renders HTML text from it. A JavaScript string is modelled as a \<^typ>\<open>string\<close> whose
  characters are code units below 256. A value that can reach \<^verbatim>\<open>escapeHtml\<close> is a
  \<open>jsval\<close>: what \<^verbatim>\<open>JSON.parse\<close> produces, and \<^verbatim>\<open>undefined\<close> for a property
  that is absent. Numbers are the integers (their decimal rendering is what
  \<^verbatim>\<open>String\<close> gives for integers below \<open>10^21\<close>).
\<close>

datatype jsval =
    JUndefined
  | JNull
  | JBool bool
  | JNum int
  | JStr string
  | JArr "jsval list"
  | JObj "(string \<times> jsval) list"

text \<open>\<^verbatim>\<open>!text\<close> is \<open>\<not> truthy text\<close>.\<close>

fun truthy :: "jsval \<Rightarrow> bool" where
  "truthy JUndefined = False"
| "truthy JNull = False"
| "truthy (JBool b) = b"
| "truthy (JNum n) = (n \<noteq> 0)"
| "truthy (JStr s) = (s \<noteq> [])"
| "truthy (JArr xs) = True"
| "truthy (JObj kvs) = True"

text \<open>\<^verbatim>\<open>Array.prototype.join\<close> on an array of strings.\<close>

fun join :: "string \<Rightarrow> string list \<Rightarrow> string" where
  "join sep [] = []"
| "join sep [x] = x"
| "join sep (x # y # ys) = x @ sep @ join sep (y # ys)"

definition lines :: "string list \<Rightarrow> string" where
  "lines ls = join [CHR 0x0A] ls"

fun showNat :: "nat \<Rightarrow> string" where
  "showNat n = (if n < 10 then [''0123456789'' ! n] else showNat (n div 10) @ [''0123456789'' ! (n mod 10)])"

declare showNat.simps [simp del]

definition showInt :: "int \<Rightarrow> string" where
  "showInt i = (if i < 0 then CHR ''-'' # showNat (nat (- i)) else showNat (nat i))"

text \<open>\<^verbatim>\<open>String(v)\<close>; an array joins its elements with a comma, \<^verbatim>\<open>null\<close> and
  \<^verbatim>\<open>undefined\<close> elements as the empty string.\<close>

fun toStr :: "jsval \<Rightarrow> string" where
  "toStr JUndefined = ''undefined''"
| "toStr JNull = ''null''"
| "toStr (JBool b) = (if b then ''true'' else ''false'')"
| "toStr (JNum n) = showInt n"
| "toStr (JStr s) = s"
| "toStr (JArr xs) =
     join '','' (map (\<lambda>x. case x of JUndefined \<Rightarrow> [] | JNull \<Rightarrow> [] | _ \<Rightarrow> toStr x) xs)"
| "toStr (JObj kvs) = ''[object Object]''"

text \<open>\<^verbatim>\<open>s.replace(/c/g, r)\<close> for a single character \<open>c\<close>.\<close>

definition replaceAll :: "char \<Rightarrow> string \<Rightarrow> string \<Rightarrow> string" where
  "replaceAll c r s = concat (map (\<lambda>x. if x = c then r else [x]) s)"

text \<open>\<^verbatim>\<open>s.replace(p, r)\<close> for a string pattern \<open>p\<close>: only the first occurrence, wherever
  it stands, is replaced.\<close>

fun replaceFirst :: "string \<Rightarrow> string \<Rightarrow> string \<Rightarrow> string" where
  "replaceFirst p r [] = (if p = [] then r else [])"
| "replaceFirst p r (c # cs) =
     (if prefix p (c # cs) then r @ drop (length p) (c # cs) else c # replaceFirst p r cs)"

text \<open>White space and line terminators among the code units below 256, as
  \<^verbatim>\<open>String.prototype.trim\<close> strips them.\<close>

definition isWhiteSpace :: "char \<Rightarrow> bool" where
  "isWhiteSpace c = (c \<in> {CHR 0x09, CHR 0x0A, CHR 0x0B, CHR 0x0C, CHR 0x0D, CHR 0x20, CHR 0xA0})"

definition trim :: "string \<Rightarrow> string" where
  "trim s = rev (dropWhile isWhiteSpace (rev (dropWhile isWhiteSpace s)))"

text \<open>\<^verbatim>\<open>s.split(sep)\<close> for a non-empty separator.\<close>

fun splitAcc :: "string \<Rightarrow> string \<Rightarrow> string \<Rightarrow> string list" where
  "splitAcc sep acc [] = [rev acc]"
| "splitAcc sep acc (c # cs) =
     (if prefix sep (c # cs) \<and> sep \<noteq> []
      then rev acc # splitAcc sep [] (drop (length sep) (c # cs))
      else splitAcc sep (c # acc) cs)"

definition split :: "string \<Rightarrow> string \<Rightarrow> string list" where
  "split sep s = splitAcc sep [] s"

definition toLowerCaseChar :: "char \<Rightarrow> char" where
  "toLowerCaseChar c =
     (let n = (of_char c :: nat) in
      if (65 \<le> n \<and> n \<le> 90) \<or> (192 \<le> n \<and> n \<le> 222 \<and> n \<noteq> 215) then char_of (n + 32) else c)"

definition toLowerCase :: "string \<Rightarrow> string" where
  "toLowerCase s = map toLowerCaseChar s"

text \<open>\<^verbatim>\<open>a || b\<close> for an optional string \<open>a\<close>: absent and empty are both falsy.\<close>

definition orElse :: "string option \<Rightarrow> string \<Rightarrow> string" where
  "orElse a b = (case a of None \<Rightarrow> b | Some s \<Rightarrow> if s = [] then b else s)"

definition present :: "string option \<Rightarrow> bool" where
  "present a = (case a of None \<Rightarrow> False | Some s \<Rightarrow> s \<noteq> [])"

definition js :: "string option \<Rightarrow> jsval" where
  "js a = (case a of None \<Rightarrow> JUndefined | Some s \<Rightarrow> JStr s)"

subsection \<open>escapeHtml\<close>

definition escapeHtml :: "jsval \<Rightarrow> string" where
  "escapeHtml text' =
     (if \<not> truthy text' then []
      else replaceAll (CHR 0x27) ''&#39;''
            (replaceAll (CHR 0x22) ''&quot;''
              (replaceAll CHR ''>'' ''&gt;''
                (replaceAll CHR ''<'' ''&lt;''
                  (replaceAll CHR ''&'' ''&amp;'' (toStr text'))))))"

section \<open>The portfolio document\<close>

text \<open>
  \<^verbatim>\<open>portfolioData\<close> is the parsed JSON document. Every property may be absent
  (\<open>None\<close>, JavaScript's \<^verbatim>\<open>undefined\<close>); a property that is present has the type the
  program reads it at. An object keyed by category id is an association list in the
  order \<^verbatim>\<open>Object.values\<close> enumerates it; ids that name a member of
  \<^verbatim>\<open>Object.prototype\<close> are not modelled.

  The script keeps the document in a module-level constant that its other constants
  (\<^verbatim>\<open>primaryColor\<close>, \<^verbatim>\<open>sectionOrder\<close>, ...) and all its functions read; here each of
  them takes the document as its argument.
\<close>

record themeColors =
  tc_primary :: "string option"
  tc_secondary :: "string option"
  tc_accent :: "string option"
  tc_background :: "string option"
  tc_text :: "string option"

record category =
  cat_id :: "string option"
  cat_name :: "string option"
  cat_icon :: "string option"

record skillsData =
  sk_categories :: "category list option"
  sk_skills :: "(string \<times> string list) list option"

record project =
  proj_title :: "string option"
  proj_summary :: "string option"
  proj_description :: "string option"
  proj_image :: "string option"
  proj_imageBg :: "string option"
  proj_imageStyle :: "string option"
  proj_skills :: "string list option"
  proj_githubUrl :: "string option"
  proj_liveUrl :: "string option"
  proj_technologies :: "string list option"

record timelineEntry =
  tl_type :: "string option"
  tl_year :: jsval
  tl_title :: "string option"
  tl_organization :: "string option"
  tl_description :: "string option"

record contact =
  ct_email :: "string option"
  ct_linkedin :: "string option"
  ct_phone :: "string option"
  ct_areasOfInterest :: "string list option"

record links =
  ln_github :: "string option"

record reference =
  ref_name :: "string option"
  ref_title :: "string option"
  ref_company :: "string option"
  ref_relationship :: "string option"
  ref_description :: "string option"
  ref_testimonial :: "string option"
  ref_email :: "string option"
  ref_phone :: "string option"
  ref_linkedin :: "string option"

record portfolioData =
  pd_name :: "string option"
  pd_title :: "string option"
  pd_bio :: "string option"
  pd_themeColors :: "themeColors option"
  pd_sectionOrder :: "string list option"
  pd_aboutText :: "string option"
  pd_skills :: "skillsData option"
  pd_skillsDisplayMode :: "string option"
  pd_projects :: "project list option"
  pd_timeline :: "timelineEntry list option"
  pd_contact :: "contact option"
  pd_links :: "links option"
  pd_resumeUrl :: "string option"
  pd_referencesUrl :: "string option"
  pd_references :: "reference list option"
  pd_footerDescriptors :: "string list option"
  pd_projectsDescription :: "string option"
  pd_contactIntro :: "string option"
  pd_headshotImage :: "string option"

text \<open>An uncaught exception ends the run; the only one the program can raise on a
  document of this shape is a \<^verbatim>\<open>TypeError\<close> for a property read of \<^verbatim>\<open>undefined\<close>.\<close>

datatype error = TypeError string

text \<open>\<^verbatim>\<open>xs && xs.length > 0\<close> for an optional array.\<close>

definition nonEmpty :: "'a list option \<Rightarrow> bool" where
  "nonEmpty xs = (case xs of None \<Rightarrow> False | Some ys \<Rightarrow> length ys > 0)"

text \<open>\<^verbatim>\<open>portfolioData.contact?.email\<close> and its siblings.\<close>

definition contactEmail :: "portfolioData \<Rightarrow> string option" where
  "contactEmail portfolioData = (case pd_contact portfolioData of None \<Rightarrow> None | Some c \<Rightarrow> ct_email c)"

definition contactLinkedin :: "portfolioData \<Rightarrow> string option" where
  "contactLinkedin portfolioData = (case pd_contact portfolioData of None \<Rightarrow> None | Some c \<Rightarrow> ct_linkedin c)"

definition contactPhone :: "portfolioData \<Rightarrow> string option" where
  "contactPhone portfolioData = (case pd_contact portfolioData of None \<Rightarrow> None | Some c \<Rightarrow> ct_phone c)"

definition contactAreasOfInterest :: "portfolioData \<Rightarrow> string list option" where
  "contactAreasOfInterest portfolioData =
     (case pd_contact portfolioData of None \<Rightarrow> None | Some c \<Rightarrow> ct_areasOfInterest c)"

definition linksGithub :: "portfolioData \<Rightarrow> string option" where
  "linksGithub portfolioData = (case pd_links portfolioData of None \<Rightarrow> None | Some l \<Rightarrow> ln_github l)"

subsection \<open>Theme colours and section order\<close>

definition themeColor :: "portfolioData \<Rightarrow> (themeColors \<Rightarrow> string option) \<Rightarrow> string option" where
  "themeColor portfolioData field =
     (case pd_themeColors portfolioData of None \<Rightarrow> None | Some tc \<Rightarrow> field tc)"

definition primaryColor :: "portfolioData \<Rightarrow> string" where
  "primaryColor portfolioData = orElse (themeColor portfolioData tc_primary) ''#0B3D91''"

definition secondaryColor :: "portfolioData \<Rightarrow> string" where
  "secondaryColor portfolioData = orElse (themeColor portfolioData tc_secondary) ''#17A2B8''"

definition accentColor :: "portfolioData \<Rightarrow> string" where
  "accentColor portfolioData = orElse (themeColor portfolioData tc_accent) ''#F3F4F6''"

definition backgroundColor :: "portfolioData \<Rightarrow> string" where
  "backgroundColor portfolioData = orElse (themeColor portfolioData tc_background) ''#ffffff''"

definition textColor :: "portfolioData \<Rightarrow> string" where
  "textColor portfolioData = orElse (themeColor portfolioData tc_text) ''#1f2937''"

definition sectionOrder :: "portfolioData \<Rightarrow> string list" where
  "sectionOrder portfolioData =
     (case pd_sectionOrder portfolioData of
        None \<Rightarrow> [''hero'', ''about'', ''skills'', ''projects'', ''timeline'', ''contact'']
      | Some order \<Rightarrow> order)"

text \<open>\<^verbatim>\<open>(referencesUrl && referencesUrl.trim() !== '') || (references && references.length > 0)\<close>,
  the condition of the navigation link and of the references page.\<close>

definition referencesTrigger :: "portfolioData \<Rightarrow> bool" where
  "referencesTrigger portfolioData =
     ((present (pd_referencesUrl portfolioData) \<and> trim (orElse (pd_referencesUrl portfolioData) []) \<noteq> [])
      \<or> nonEmpty (pd_references portfolioData))"

section \<open>Static markup\<close>

text \<open>The text of every template literal of the source between its interpolations, by
  function and position.\<close>

definition css_1 :: string where
  \<open>css_1 = lines [
    '''',
    ''  :root {'',
    ''    --primary-theme: '']\<close>

definition css_2 :: string where
  \<open>css_2 = lines [
    '';'',
    ''    --secondary-theme: '']\<close>

definition css_3 :: string where
  \<open>css_3 = lines [
    '';'',
    ''    --accent-theme: '']\<close>

definition css_4 :: string where
  \<open>css_4 = lines [
    '';'',
    ''    --bg-theme: '']\<close>

definition css_5 :: string where
  \<open>css_5 = lines [
    '';'',
    ''    --text-theme: '']\<close>

definition css_6 :: string where
  \<open>css_6 = lines [
    '';'',
    ''  }'',
    ''  '',
    ''  body {'',
    ''    font-family: -apple-system, BlinkMacSystemFont, \'Segoe UI\', \'Roboto\', \'Oxygen\', \'Ubuntu\', \'Cantarell\', \'Fira Sans\', \'Droid Sans\', \'Helvetica Neue\', sans-serif;'',
    ''    -webkit-font-smoothing: antialiased;'',
    ''    -moz-osx-font-smoothing: grayscale;'',
    ''    margin: 0;'',
    ''    padding: 0;'',
    ''  }'',
    ''  '',
    ''  html {'',
    ''    scroll-behavior: smooth;'',
    ''  }'',
    ''  '',
    ''  /* Card styles - matching shadcn/ui */'',
    ''  .card {'',
    ''    border-radius: 0.5rem;'',
    ''    border: 1px solid #e5e7eb;'',
    ''    background-color: white;'',
    ''  }'',
    ''  '',
    ''  .card-content {'',
    ''    padding: 1.5rem;'',
    ''  }'',
    ''  '',
    ''  /* Badge styles - matching shadcn/ui */'',
    ''  .badge {'',
    ''    display: inline-flex;'',
    ''    align-items: center;'',
    ''    border-radius: 9999px;'',
    ''    padding: 0.25rem 0.75rem;'',
    ''    font-size: 0.75rem;'',
    ''    font-weight: 600;'',
    ''    transition: all 0.2s;'',
    ''  }'',
    ''  '',
    ''  .badge-secondary {'',
    ''    background-color: rgba(107, 114, 128, 0.1);'',
    ''    color: rgb(107, 114, 128);'',
    ''  }'',
    ''  '',
    ''  /* Skill Card Icon Colors */'',
    ''  .skill-icon {'',
    ''    width: 4rem;'',
    ''    height: 4rem;'',
    ''    border-radius: 9999px;'',
    ''    display: flex;'',
    ''    align-items: center;'',
    ''    justify-center;'',
    ''    margin: 0 auto 1rem;'',
    ''  }'',
    ''  '',
    ''  /* Skills Carousel Animation */'',
    ''  @keyframes scroll {'',
    ''    from {'',
    ''      transform: translateX(0);'',
    ''    }'',
    ''    to {'',
    ''      transform: translateX(-50%);'',
    ''    }'',
    ''  }'',
    ''  '',
    ''  .skills-carousel {'',
    ''    animation: scroll 60s linear infinite;'',
    ''  }'',
    ''  '',
    ''  /* Timeline styles */'',
    ''  .timeline-line {'',
    ''    position: absolute;'',
    ''    left: 50%;'',
    ''    transform: translateX(-50%);'',
    ''    width: 0.25rem;'',
    ''    height: 100%;'',
    ''    background-color: var(--secondary-theme);'',
    ''    border-radius: 9999px;'',
    ''  }'',
    ''  '',
    ''  .timeline-dot {'',
    ''    width: 1rem;'',
    ''    height: 1rem;'',
    ''    background-color: #17A2B8;'',
    ''    border-radius: 9999px;'',
    ''    border: 4px solid white;'',
    ''    box-shadow: 0 10px 15px -3px rgba(0, 0, 0, 0.1);'',
    ''  }'',
    ''  '',
    ''  /* Hover effects */'',
    ''  .hover-scale:hover {'',
    ''    transform: scale(1.05);'',
    ''  }'',
    ''  '',
    ''  .hover-translate:hover {'',
    ''    transform: translateY(-4px);'',
    ''  }'',
    ''  '',
    ''  .transition-all {'',
    ''    transition: all 0.3s ease;'',
    ''  }'',
    ''  '',
    ''  /* Line clamp */'',
    ''  .line-clamp-4 {'',
    ''    display: -webkit-box;'',
    ''    -webkit-line-clamp: 4;'',
    ''    -webkit-box-orient: vertical;  '',
    ''    overflow: hidden;'',
    ''  }'',
    '''']\<close>

definition page_1 :: string where
  \<open>page_1 = lines [
    ''<!DOCTYPE html>'',
    ''<html lang="en">'',
    ''<head>'',
    ''    <meta charset="UTF-8">'',
    ''    <meta name="viewport" content="width=device-width, initial-scale=1.0">'',
    ''    <title>'']\<close>

definition page_2 :: string where
  \<open>page_2 = lines [
    ''</title>'',
    ''    <script src="https://cdn.tailwindcss.com"></script>'',
    ''    <style>'']\<close>

definition page_3 :: string where
  \<open>page_3 = lines [
    ''</style>'',
    ''</head>'',
    ''<body>'',
    ''    <!-- Navigation -->'',
    ''    <nav class="fixed top-0 w-full bg-white/90 backdrop-blur-sm border-b border-gray-100 z-50">'',
    ''        <div class="max-w-7xl mx-auto px-4 sm:px-6 lg:px-8">'',
    ''            <div class="flex justify-between items-center h-16">'',
    ''                <button '',
    ''                    onclick="window.scrollTo({ top: 0, behavior: \'smooth\' })"'',
    ''                    class="font-bold text-xl transition-colors cursor-pointer"'',
    ''                    style="color: '']\<close>

definition page_4 :: string where
  \<open>page_4 = lines [
    ''; border: none; background: none;"'',
    (''                    onmouseenter="this.style.color='' @ [CHR 0x27])]\<close>

definition page_5 :: string where
  \<open>page_5 = lines [
    ''\'"'',
    (''                    onmouseleave="this.style.color='' @ [CHR 0x27])]\<close>

definition page_6 :: string where
  \<open>page_6 = lines [
    ''\'">'',
    ''                    '']\<close>

definition page_7 :: string where
  \<open>page_7 = lines [
    '''',
    ''                </button>'',
    ''                <div class="hidden md:flex space-x-8">'',
    ''                    <a href="#about" '',
    ''                       class="text-gray-700 transition-colors"'',
    ''                       style="color: #374151;"'',
    (''                       onmouseenter="this.style.color='' @ [CHR 0x27])]\<close>

definition page_8 :: string where
  \<open>page_8 = lines [
    ''\'"'',
    ''                       onmouseleave="this.style.color=\'#374151\'">'',
    ''                        About'',
    ''                    </a>'',
    ''                    <a href="#projects" '',
    ''                       class="text-gray-700 transition-colors"'',
    ''                       style="color: #374151;"'',
    (''                       onmouseenter="this.style.color='' @ [CHR 0x27])]\<close>

definition page_9 :: string where
  \<open>page_9 = lines [
    ''\'"'',
    ''                       onmouseleave="this.style.color=\'#374151\'">'',
    ''                        Projects'',
    ''                    </a>'',
    ''                    <a href="#timeline" '',
    ''                       class="text-gray-700 transition-colors"'',
    ''                       style="color: #374151;"'',
    (''                       onmouseenter="this.style.color='' @ [CHR 0x27])]\<close>

definition page_10 :: string where
  \<open>page_10 = lines [
    ''\'"'',
    ''                       onmouseleave="this.style.color=\'#374151\'">'',
    ''                        Resume'',
    ''                    </a>'',
    ''                    '']\<close>

definition page_11 :: string where
  \<open>page_11 = lines [
    '''',
    ''                        <a href="references.html" '',
    ''                           class="text-gray-700 transition-colors"'',
    ''                           style="color: #374151;"'',
    (''                           onmouseenter="this.style.color='' @ [CHR 0x27])]\<close>

definition page_12 :: string where
  \<open>page_12 = lines [
    ''\'"'',
    ''                           onmouseleave="this.style.color=\'#374151\'">'',
    ''                            References'',
    ''                        </a>'',
    ''                    '']\<close>

definition page_13 :: string where
  \<open>page_13 = lines [
    '''',
    ''                    <a href="#contact" '',
    ''                       class="text-gray-700 transition-colors"'',
    ''                       style="color: #374151;"'',
    (''                       onmouseenter="this.style.color='' @ [CHR 0x27])]\<close>

definition page_14 :: string where
  \<open>page_14 = lines [
    ''\'"'',
    ''                       onmouseleave="this.style.color=\'#374151\'">'',
    ''                        Contact'',
    ''                    </a>'',
    ''                </div>'',
    ''            </div>'',
    ''        </div>'',
    ''    </nav>'',
    ''    '',
    ''    <!-- Main Content -->'',
    ''    <main class="min-h-screen">'',
    ''        '']\<close>

definition page_15 :: string where
  \<open>page_15 = lines [
    '''',
    ''    </main>'',
    ''    '',
    ''    <!-- Footer -->'',
    ''    '']\<close>

definition page_16 :: string where
  \<open>page_16 = lines [
    '''',
    ''    '',
    ''    <script>'',
    ''        // Smooth scrolling'',
    ''        document.querySelectorAll(\'a[href^="#"]\').forEach(anchor => {'',
    ''            anchor.addEventListener(\'click\', function (e) {'',
    ''                e.preventDefault();'',
    ''                const target = document.querySelector(this.getAttribute(\'href\'));'',
    ''                if (target) {'',
    ''                    target.scrollIntoView({'',
    ''                        behavior: \'smooth\','',
    (''                        block: \'start'' @ [CHR 0x27]),
    ''                    });'',
    ''                }'',
    ''            });'',
    ''        });'',
    ''    </script>'',
    ''</body>'',
    ''</html>'']\<close>

definition hero_1 :: string where
  \<open>hero_1 = lines [
    '''',
    ''    <section id="hero" class="min-h-screen flex items-center justify-center text-white relative" style="background: linear-gradient(135deg, '']\<close>

definition hero_2 :: string where
  \<open>hero_2 = '', ''\<close>

definition hero_3 :: string where
  \<open>hero_3 = lines [
    '');">'',
    ''        <div class="max-w-6xl mx-auto px-4 sm:px-6 lg:px-8">'',
    ''            <div class="grid lg:grid-cols-2 gap-12 items-center">'',
    ''                <!-- Headshot - LEFT SIDE -->'',
    ''                <div class="flex justify-center lg:justify-start order-2 lg:order-1">'',
    ''                    <div class="opacity-100">'',
    ''                        <div class="relative">'',
    ''                            <div class="w-80 h-auto md:w-96 md:h-auto rounded-2xl overflow-hidden border-4 shadow-2xl" style="border-color: rgba(255, 255, 255, 0.2);">'',
    ''                                '']\<close>

definition hero_4 :: string where
  \<open>hero_4 = lines [
    '''',
    ''                                    <img src="'']\<close>

definition hero_5 :: string where
  \<open>hero_5 = lines [
    ''" '',
    ''                                         alt="'']\<close>

definition hero_6 :: string where
  \<open>hero_6 = lines [
    '' - Professional headshot" '',
    ''                                         class="w-full h-full object-contain">'',
    ''                                '']\<close>

definition hero_7 :: string where
  \<open>hero_7 = lines [
    '''',
    ''                                    <div class="w-full h-full rounded-2xl flex flex-col items-center justify-center text-white/70" style="background-color: rgba(255, 255, 255, 0.1); border-color: rgba(255, 255, 255, 0.3);">'',
    ''                                        <svg class="w-20 h-20 mb-2" fill="currentColor" viewBox="0 0 20 20">'',
    ''                                            <path fill-rule="evenodd" d="M4 3a2 2 0 00-2 2v10a2 2 0 002 2h12a2 2 0 002-2V5a2 2 0 00-2-2H4zm12 12H4l4-8 3 6 2-4 3 6z" clip-rule="evenodd"></path>'',
    ''                                        </svg>'',
    ''                                        <span class="text-sm font-medium">Add Headshot</span>'',
    ''                                    </div>'',
    ''                                '']\<close>

definition hero_8 :: string where
  \<open>hero_8 = lines [
    '''',
    ''                            </div>'',
    ''                            <div class="absolute inset-0 rounded-2xl blur-xl -z-10 scale-110" style="background: linear-gradient(to bottom right, rgba(23, 162, 184, 0.3), transparent);"></div>'',
    ''                        </div>'',
    ''                    </div>'',
    ''                </div>'',
    '''',
    ''                <!-- Text Content - RIGHT SIDE -->'',
    ''                <div class="text-center lg:text-left order-1 lg:order-2">'',
    ''                    <h1 class="text-4xl md:text-6xl lg:text-7xl font-bold mb-6 leading-tight">'',
    ''                        '']\<close>

definition hero_9 :: string where
  \<open>hero_9 = lines [
    '''',
    ''                    </h1>'',
    ''                    <h2 class="text-xl md:text-2xl lg:text-3xl font-light mb-8" style="color: '']\<close>

definition hero_10 :: string where
  \<open>hero_10 = lines [
    '';">'',
    ''                        '']\<close>

definition hero_11 :: string where
  \<open>hero_11 = lines [
    '''',
    ''                    </h2>'',
    ''                    <p class="text-lg md:text-xl lg:text-2xl mb-12 leading-relaxed max-w-2xl" style="color: '']\<close>

definition hero_12 :: string where
  \<open>hero_12 = lines [
    '';">'',
    ''                        '']\<close>

definition hero_13 :: string where
  \<open>hero_13 = lines [
    '''',
    ''                    </p>'',
    ''                    <div class="flex flex-col sm:flex-row gap-4 justify-center lg:justify-start">'',
    ''                        <a href="#projects" '',
    ''                           class="inline-flex items-center justify-center text-white h-11 px-8 text-lg font-semibold rounded-lg transition-all duration-300 hover:scale-105 shadow-lg" '',
    ''                           style="background-color: '']\<close>

definition hero_14 :: string where
  \<open>hero_14 = lines [
    '';"'',
    (''                           onmouseenter="this.style.backgroundColor='' @ [CHR 0x27])]\<close>

definition hero_15 :: string where
  \<open>hero_15 = lines [
    ''\'"'',
    (''                           onmouseleave="this.style.backgroundColor='' @ [CHR 0x27])]\<close>

definition hero_16 :: string where
  \<open>hero_16 = lines [
    ''\'">'',
    ''                            View My Projects'',
    ''                        </a>'',
    ''                    </div>'',
    ''                </div>'',
    ''            </div>'',
    ''        </div>'',
    ''        <!-- Scroll indicator -->'',
    ''        <div class="absolute bottom-8 left-1/2 transform -translate-x-1/2 animate-bounce">'',
    ''            <svg class="w-8 h-8" style="color: rgba(255, 255, 255, 0.7);" fill="none" stroke="currentColor" viewBox="0 0 24 24">'',
    ''                <path stroke-linecap="round" stroke-linejoin="round" stroke-width="2" d="M19 9l-7 7-7-7"></path>'',
    ''            </svg>'',
    ''        </div>'',
    ''    </section>'',
    ''  '']\<close>

definition about_1 :: string where
  \<open>about_1 = lines [
    '''',
    ''    <section id="about" class="py-20 bg-white">'',
    ''        <div class="px-4 sm:px-6 lg:px-8">'',
    ''            <div class="text-center mb-16">'',
    ''                <h2 class="text-4xl md:text-5xl font-bold mb-6" style="color: '']\<close>

definition about_2 :: string where
  \<open>about_2 = lines [
    '';">About Me</h2>'',
    ''                <div class="max-w-4xl mx-auto">'',
    ''                    '']\<close>

definition about_3 :: string where
  \<open>about_3 = lines [
    '''',
    ''                        <p class="text-lg md:text-xl text-gray-700 leading-relaxed mb-6">'',
    ''                            '']\<close>

definition about_4 :: string where
  \<open>about_4 = lines [
    '''',
    ''                        </p>'',
    ''                    '']\<close>

definition about_5 :: string where
  \<open>about_5 = lines [
    '''',
    ''                </div>'',
    ''            </div>'',
    ''            '',
    ''            <!-- Skills Section -->'',
    ''            '']\<close>

definition about_6 :: string where
  \<open>about_6 = lines [
    '''',
    ''        </div>'',
    ''    </section>'',
    ''  '']\<close>

definition carousel_1 :: string where
  \<open>carousel_1 = lines [
    '''',
    ''    <div class="text-center mt-8">'',
    ''        <h3 class="text-2xl font-semibold mb-8" style="color: '']\<close>

definition carousel_2 :: string where
  \<open>carousel_2 = lines [
    '';">Skills</h3>'',
    ''        <div class="-mx-4 sm:-mx-6 lg:-mx-8">'',
    ''            <div class="skills-carousel-container relative overflow-hidden bg-gray-50/50 rounded-lg py-4">'',
    ''                <div class="skills-carousel flex gap-3 whitespace-nowrap" style="width: max-content;">'',
    ''                    '']\<close>

definition carousel_3 :: string where
  \<open>carousel_3 = lines [
    '''',
    ''                        <span class="badge px-4 py-2 text-sm font-medium transition-all duration-300 hover:scale-105 flex-shrink-0" '',
    ''                              style="background-color: '']\<close>

definition carousel_4 :: string where
  \<open>carousel_4 = ''10; color: ''\<close>

definition carousel_5 :: string where
  \<open>carousel_5 = lines [
    '';">'',
    ''                            '']\<close>

definition carousel_6 :: string where
  \<open>carousel_6 = lines [
    '''',
    ''                        </span>'',
    ''                    '']\<close>

definition carousel_7 :: string where
  \<open>carousel_7 = lines [
    '''',
    ''                </div>'',
    ''            </div>'',
    ''        </div>'',
    ''    </div>'',
    ''  '']\<close>

definition cardsEmpty :: string where
  \<open>cardsEmpty = lines [
    '''',
    ''      <div class="text-center text-gray-500 py-8">'',
    ''          <p>No skills added yet. Add some skills in the editor!</p>'',
    ''      </div>'',
    ''    '']\<close>

definition cardsRow_1 :: string where
  \<open>cardsRow_1 = lines [
    '''',
    ''      <div class="'']\<close>

definition cardsRow_2 :: string where
  \<open>cardsRow_2 = lines [
    ''">'',
    ''          '']\<close>

definition cardsRow_3 :: string where
  \<open>cardsRow_3 = lines [
    '''',
    ''              <div class="'']\<close>

definition cardsRow_4 :: string where
  \<open>cardsRow_4 = lines [
    ''">'',
    ''                  <div class="bg-white rounded-lg border-0 shadow-lg hover:shadow-xl transition-shadow duration-300 h-full flex flex-col">'',
    ''                      <div class="p-8 flex flex-col h-full w-full">'',
    ''                          <div class="text-center mb-6">'',
    ''                              <div class="w-16 h-16 rounded-full flex items-center justify-center mx-auto mb-4" style="background-color: '']\<close>

definition cardsRow_5 :: string where
  \<open>cardsRow_5 = lines [
    '';">'',
    ''                                  '']\<close>

definition cardsRow_6 :: string where
  \<open>cardsRow_6 = lines [
    '''',
    ''                              </div>'',
    ''                              <h3 class="text-xl font-bold mb-4" style="color: '']\<close>

definition cardsRow_7 :: string where
  \<open>cardsRow_7 = lines [
    '';">'',
    ''                                  '']\<close>

definition cardsRow_8 :: string where
  \<open>cardsRow_8 = lines [
    '''',
    ''                              </h3>'',
    ''                          </div>'',
    ''                          <div class="space-y-3 flex-1">'',
    ''                              '']\<close>

definition cardsRow_9 :: string where
  \<open>cardsRow_9 = lines [
    '''',
    ''                                  <div class="flex items-center">'',
    ''                                      <div class="w-2 h-2 rounded-full mr-3 flex-shrink-0" style="background-color: '']\<close>

definition cardsRow_10 :: string where
  \<open>cardsRow_10 = lines [
    '';"></div>'',
    ''                                      <span class="text-gray-700 font-medium text-sm leading-tight">'']\<close>

definition cardsRow_11 :: string where
  \<open>cardsRow_11 = lines [
    ''</span>'',
    ''                                  </div>'',
    ''                              '']\<close>

definition cardsRow_12 :: string where
  \<open>cardsRow_12 = lines [
    '''',
    ''                          </div>'',
    ''                      </div>'',
    ''                  </div>'',
    ''              </div>'',
    ''            '']\<close>

definition cardsRow_13 :: string where
  \<open>cardsRow_13 = lines [
    '''',
    ''      </div>'',
    ''    '']\<close>

definition cardsWrap_1 :: string where
  \<open>cardsWrap_1 = lines [
    '''',
    ''    <div class="flex flex-col items-center">'',
    ''        '']\<close>

definition cardsWrap_2 :: string where
  \<open>cardsWrap_2 = lines [
    '''',
    ''    </div>'',
    ''  '']\<close>

definition defaultIcon0 :: string where
  \<open>defaultIcon0 = lines [
    ''<svg class="w-8 h-8 text-white" fill="none" stroke="currentColor" viewBox="0 0 24 24">'',
    ''      <path stroke-linecap="round" stroke-linejoin="round" stroke-width="2" d="M11.049 2.927c.3-.921 1.603-.921 1.902 0l1.519 4.674a1 1 0 00.95.69h4.915c.969 0 1.371 1.24.588 1.81l-3.976 2.888a1 1 0 00-.363 1.118l1.518 4.674c.3.922-.755 1.688-1.538 1.118l-3.976-2.888a1 1 0 00-1.176 0l-3.976 2.888c-.783.57-1.838-.197-1.538-1.118l1.518-4.674a1 1 0 00-.363-1.118l-3.976-2.888c-.784-.57-.38-1.81.588-1.81h4.914a1 1 0 00.951-.69l1.519-4.674z"></path>'',
    ''    </svg>'']\<close>

definition defaultIcon1 :: string where
  \<open>defaultIcon1 = lines [
    ''<svg class="w-8 h-8 text-white" fill="none" stroke="currentColor" viewBox="0 0 24 24">'',
    ''      <path stroke-linecap="round" stroke-linejoin="round" stroke-width="2" d="M9 12l2 2 4-4m6 2a9 9 0 11-18 0 9 9 0 0118 0z"></path>'',
    ''    </svg>'']\<close>

definition defaultIcon2 :: string where
  \<open>defaultIcon2 = lines [
    ''<svg class="w-8 h-8 text-white" fill="none" stroke="currentColor" viewBox="0 0 24 24">'',
    ''      <path stroke-linecap="round" stroke-linejoin="round" stroke-width="2" d="M17 20h5v-2a3 3 0 00-5.356-1.857M17 20H7m10 0v-2c0-.656-.126-1.283-.356-1.857M7 20H2v-2a3 3 0 015.356-1.857M7 20v-2c0-.656.126-1.283.356-1.857m0 0a5.002 5.002 0 019.288 0M15 7a3 3 0 11-6 0 3 3 0 016 0zm6 3a2 2 0 11-4 0 2 2 0 014 0zM7 10a2 2 0 11-4 0 2 2 0 014 0z"></path>'',
    ''    </svg>'']\<close>

definition defaultIcon3 :: string where
  \<open>defaultIcon3 = lines [
    ''<svg class="w-8 h-8 text-white" fill="none" stroke="currentColor" viewBox="0 0 24 24">'',
    ''      <path stroke-linecap="round" stroke-linejoin="round" stroke-width="2" d="M9 12l2 2 4-4m6 2a9 9 0 11-18 0 9 9 0 0118 0z"></path>'',
    ''    </svg>'']\<close>

definition defaultIcon4 :: string where
  \<open>defaultIcon4 = lines [
    ''<svg class="w-8 h-8 text-white" fill="none" stroke="currentColor" viewBox="0 0 24 24">'',
    ''      <path stroke-linecap="round" stroke-linejoin="round" stroke-width="2" d="M19 11H5m14 0a2 2 0 012 2v6a2 2 0 01-2 2H5a2 2 0 01-2-2v-6a2 2 0 012-2m14 0V9a2 2 0 00-2-2M5 11V9a2 2 0 012-2m0 0V5a2 2 0 012-2h6a2 2 0 012 2v2M7 7h10"></path>'',
    ''    </svg>'']\<close>

definition icon_star :: string where
  \<open>icon_star = lines [
    ''<svg class="w-8 h-8 text-white" fill="none" stroke="currentColor" viewBox="0 0 24 24">'',
    ''        <path stroke-linecap="round" stroke-linejoin="round" stroke-width="2" d="M11.049 2.927c.3-.921 1.603-.921 1.902 0l1.519 4.674a1 1 0 00.95.69h4.915c.969 0 1.371 1.24.588 1.81l-3.976 2.888a1 1 0 00-.363 1.118l1.518 4.674c.3.922-.755 1.688-1.538 1.118l-3.976-2.888a1 1 0 00-1.176 0l-3.976 2.888c-.783.57-1.838-.197-1.538-1.118l1.518-4.674a1 1 0 00-.363-1.118l-3.976-2.888c-.784-.57-.38-1.81.588-1.81h4.914a1 1 0 00.951-.69l1.519-4.674z"></path>'',
    ''      </svg>'']\<close>

definition icon_check :: string where
  \<open>icon_check = lines [
    ''<svg class="w-8 h-8 text-white" fill="none" stroke="currentColor" viewBox="0 0 24 24">'',
    ''        <path stroke-linecap="round" stroke-linejoin="round" stroke-width="2" d="M9 12l2 2 4-4m6 2a9 9 0 11-18 0 9 9 0 0118 0z"></path>'',
    ''      </svg>'']\<close>

definition icon_people :: string where
  \<open>icon_people = lines [
    ''<svg class="w-8 h-8 text-white" fill="none" stroke="currentColor" viewBox="0 0 24 24">'',
    ''        <path stroke-linecap="round" stroke-linejoin="round" stroke-width="2" d="M17 20h5v-2a3 3 0 00-5.356-1.857M17 20H7m10 0v-2c0-.656-.126-1.283-.356-1.857M7 20H2v-2a3 3 0 015.356-1.857M7 20v-2c0-.656.126-1.283.356-1.857m0 0a5.002 5.002 0 019.288 0M15 7a3 3 0 11-6 0 3 3 0 016 0zm6 3a2 2 0 11-4 0 2 2 0 014 0zM7 10a2 2 0 11-4 0 2 2 0 014 0z"></path>'',
    ''      </svg>'']\<close>

definition icon_code :: string where
  \<open>icon_code = lines [
    ''<svg class="w-8 h-8 text-white" fill="none" stroke="currentColor" viewBox="0 0 24 24">'',
    ''        <path stroke-linecap="round" stroke-linejoin="round" stroke-width="2" d="M9 3v2m6-2v2M9 19v2m6-2v2M5 9H3m2 6H3m18-6h-2m2 6h-2M7 19h10a2 2 0 002-2V7a2 2 0 00-2-2H7a2 2 0 00-2 2v10a2 2 0 002 2zM9 9h6v6H9V9z"></path>'',
    ''      </svg>'']\<close>

definition icon_tool :: string where
  \<open>icon_tool = lines [
    ''<svg class="w-8 h-8 text-white" fill="none" stroke="currentColor" viewBox="0 0 24 24">'',
    ''        <path stroke-linecap="round" stroke-linejoin="round" stroke-width="2" d="M10.325 4.317c.426-1.756 2.924-1.756 3.35 0a1.724 1.724 0 002.573 1.066c1.543-.94 3.31.826 2.37 2.37a1.724 1.724 0 001.065 2.572c1.756.426 1.756 2.924 0 3.35a1.724 1.724 0 00-1.066 2.573c.94 1.543-.826 3.31-2.37 2.37a1.724 1.724 0 00-2.572 1.065c-.426 1.756-2.924 1.756-3.35 0a1.724 1.724 0 00-2.573-1.066c-1.543.94-3.31-.826-2.37-2.37a1.724 1.724 0 00-1.065-2.572c-1.756-.426-1.756-2.924 0-3.35a1.724 1.724 0 001.066-2.573c-.94-1.543.826-3.31 2.37-2.37.996.608 2.296.07 2.572-1.065z"></path><path stroke-linecap="round" stroke-linejoin="round" stroke-width="2" d="M15 12a3 3 0 11-6 0 3 3 0 016 0z"></path>'',
    ''      </svg>'']\<close>

definition icon_design :: string where
  \<open>icon_design = lines [
    ''<svg class="w-8 h-8 text-white" fill="none" stroke="currentColor" viewBox="0 0 24 24">'',
    ''        <path stroke-linecap="round" stroke-linejoin="round" stroke-width="2" d="M7 21a4 4 0 01-4-4V5a2 2 0 012-2h4a2 2 0 012 2v12a4 4 0 01-4 4zM21 5a2 2 0 00-2-2h-4a2 2 0 00-2 2v12a4 4 0 004 4h4a2 2 0 002-2V5z"></path>'',
    ''      </svg>'']\<close>

definition icon_language :: string where
  \<open>icon_language = lines [
    ''<svg class="w-8 h-8 text-white" fill="none" stroke="currentColor" viewBox="0 0 24 24">'',
    ''        <path stroke-linecap="round" stroke-linejoin="round" stroke-width="2" d="M3 5h12M9 3v2m1.048 9.5A18.022 18.022 0 016.412 9m6.088 9h7M11 21l5-10 5 10M12.751 5C11.783 10.77 8.07 15.61 3 18.129"></path>'',
    ''      </svg>'']\<close>

definition icon_heart :: string where
  \<open>icon_heart = lines [
    ''<svg class="w-8 h-8 text-white" fill="none" stroke="currentColor" viewBox="0 0 24 24">'',
    ''        <path stroke-linecap="round" stroke-linejoin="round" stroke-width="2" d="M4.318 6.318a4.5 4.5 0 000 6.364L12 20.364l7.682-7.682a4.5 4.5 0 00-6.364-6.364L12 7.636l-1.318-1.318a4.5 4.5 0 00-6.364 0z"></path>'',
    ''      </svg>'']\<close>

definition icon_certification :: string where
  \<open>icon_certification = lines [
    ''<svg class="w-8 h-8 text-white" fill="none" stroke="currentColor" viewBox="0 0 24 24">'',
    ''        <path stroke-linecap="round" stroke-linejoin="round" stroke-width="2" d="M9 12l2 2 4-4M7.835 4.697a3.42 3.42 0 001.946-.806 3.42 3.42 0 014.438 0 3.42 3.42 0 001.946.806 3.42 3.42 0 013.138 3.138 3.42 3.42 0 00.806 1.946 3.42 3.42 0 010 4.438 3.42 3.42 0 00-.806 1.946 3.42 3.42 0 01-3.138 3.138 3.42 3.42 0 00-1.946.806 3.42 3.42 0 01-4.438 0 3.42 3.42 0 00-1.946-.806 3.42 3.42 0 01-3.138-3.138 3.42 3.42 0 00-.806-1.946 3.42 3.42 0 010-4.438 3.42 3.42 0 00.806-1.946 3.42 3.42 0 013.138-3.138z"></path>'',
    ''      </svg>'']\<close>

definition icon_framework :: string where
  \<open>icon_framework = lines [
    ''<svg class="w-8 h-8 text-white" fill="none" stroke="currentColor" viewBox="0 0 24 24">'',
    ''        <path stroke-linecap="round" stroke-linejoin="round" stroke-width="2" d="M19 11H5m14 0a2 2 0 012 2v6a2 2 0 01-2 2H5a2 2 0 01-2-2v-6a2 2 0 012-2m14 0V9a2 2 0 00-2-2M5 11V9a2 2 0 012-2m0 0V5a2 2 0 012-2h6a2 2 0 012 2v2M7 7h10"></path>'',
    ''      </svg>'']\<close>

definition icon_database :: string where
  \<open>icon_database = lines [
    ''<svg class="w-8 h-8 text-white" fill="none" stroke="currentColor" viewBox="0 0 24 24">'',
    ''        <path stroke-linecap="round" stroke-linejoin="round" stroke-width="2" d="M4 7v10c0 2.21 3.582 4 8 4s8-1.79 8-4V7M4 7c0 2.21 3.582 4 8 4s8-1.79 8-4M4 7c0-2.21 3.582-4 8-4s8 1.79 8 4m0 5c0 2.21-3.582 4-8 4s-8-1.79-8-4"></path>'',
    ''      </svg>'']\<close>

definition icon_cloud :: string where
  \<open>icon_cloud = lines [
    ''<svg class="w-8 h-8 text-white" fill="none" stroke="currentColor" viewBox="0 0 24 24">'',
    ''        <path stroke-linecap="round" stroke-linejoin="round" stroke-width="2" d="M7 16a4 4 0 01-.88-7.903A5 5 0 1115.9 6L16 6a5 5 0 011 9.9M9 19l3 3m0 0l3-3m-3 3V10"></path>'',
    ''      </svg>'']\<close>

definition icon_mobile :: string where
  \<open>icon_mobile = lines [
    ''<svg class="w-8 h-8 text-white" fill="none" stroke="currentColor" viewBox="0 0 24 24">'',
    ''        <path stroke-linecap="round" stroke-linejoin="round" stroke-width="2" d="M12 18h.01M8 21h8a2 2 0 002-2V5a2 2 0 00-2-2H8a2 2 0 00-2 2v14a2 2 0 002 2z"></path>'',
    ''      </svg>'']\<close>

definition icon_management :: string where
  \<open>icon_management = lines [
    ''<svg class="w-8 h-8 text-white" fill="none" stroke="currentColor" viewBox="0 0 24 24">'',
    ''        <path stroke-linecap="round" stroke-linejoin="round" stroke-width="2" d="M9 19v-6a2 2 0 00-2-2H5a2 2 0 00-2 2v6a2 2 0 002 2h2a2 2 0 002-2zm0 0V9a2 2 0 012-2h2a2 2 0 012 2v10m-6 0a2 2 0 002 2h2a2 2 0 002-2m0 0V5a2 2 0 012-2h2a2 2 0 012 2v14a2 2 0 01-2 2h-2a2 2 0 01-2-2z"></path>'',
    ''      </svg>'']\<close>

definition icon_research :: string where
  \<open>icon_research = lines [
    ''<svg class="w-8 h-8 text-white" fill="none" stroke="currentColor" viewBox="0 0 24 24">'',
    ''        <path stroke-linecap="round" stroke-linejoin="round" stroke-width="2" d="M9.663 17h4.673M12 3v1m6.364 1.636l-.707.707M21 12h-1M4 12H3m3.343-5.657l-.707-.707m2.828 9.9a5 5 0 117.072 0l-.548.547A3.374 3.374 0 0014 18.469V19a2 2 0 11-4 0v-.531c0-.895-.356-1.754-.988-2.386l-.548-.547z"></path>'',
    ''      </svg>'']\<close>

definition icon_communication :: string where
  \<open>icon_communication = lines [
    ''<svg class="w-8 h-8 text-white" fill="none" stroke="currentColor" viewBox="0 0 24 24">'',
    ''        <path stroke-linecap="round" stroke-linejoin="round" stroke-width="2" d="M8 12h.01M12 12h.01M16 12h.01M21 12c0 4.418-4.03 8-9 8a9.863 9.863 0 01-4.255-.949L3 20l1.395-3.72C3.512 15.042 3 13.574 3 12c0-4.418 4.03-8 9-8s9 3.582 9 8z"></path>'',
    ''      </svg>'']\<close>

definition icon_leadership :: string where
  \<open>icon_leadership = lines [
    ''<svg class="w-8 h-8 text-white" fill="none" stroke="currentColor" viewBox="0 0 24 24">'',
    ''        <path stroke-linecap="round" stroke-linejoin="round" stroke-width="2" d="M13 10V3L4 14h7v7l9-11h-7z"></path>'',
    ''      </svg>'']\<close>

definition icon_security :: string where
  \<open>icon_security = lines [
    ''<svg class="w-8 h-8 text-white" fill="none" stroke="currentColor" viewBox="0 0 24 24">'',
    ''        <path stroke-linecap="round" stroke-linejoin="round" stroke-width="2" d="M9 12l2 2 4-4m5.618-4.016A11.955 11.955 0 0112 2.944a11.955 11.955 0 01-8.618 3.04A12.02 12.02 0 003 9c0 5.591 3.824 10.29 9 11.622 5.176-1.332 9-6.03 9-11.622 0-1.042-.133-2.052-.382-3.016z"></path>'',
    ''      </svg>'']\<close>

definition icon_blockchain :: string where
  \<open>icon_blockchain = lines [
    ''<svg class="w-8 h-8 text-white" fill="none" stroke="currentColor" viewBox="0 0 24 24">'',
    ''        <path stroke-linecap="round" stroke-linejoin="round" stroke-width="2" d="M13.828 10.172a4 4 0 00-5.656 0l-4 4a4 4 0 105.656 5.656l1.102-1.101m-.758-4.899a4 4 0 005.656 0l4-4a4 4 0 00-5.656-5.656l-1.1 1.1"></path>'',
    ''      </svg>'']\<close>

definition icon_gaming :: string where
  \<open>icon_gaming = lines [
    ''<svg class="w-8 h-8 text-white" fill="none" stroke="currentColor" viewBox="0 0 24 24">'',
    ''        <path stroke-linecap="round" stroke-linejoin="round" stroke-width="2" d="M14.828 14.828a4 4 0 01-5.656 0M9 10h1m4 0h1m-6 4h.01M21 12a9 9 0 11-18 0 9 9 0 0118 0z"></path>'',
    ''      </svg>'']\<close>

definition icon_finance :: string where
  \<open>icon_finance = lines [
    ''<svg class="w-8 h-8 text-white" fill="none" stroke="currentColor" viewBox="0 0 24 24">'',
    ''        <path stroke-linecap="round" stroke-linejoin="round" stroke-width="2" d="M12 8c-1.657 0-3 .895-3 2s1.343 2 3 2 3 .895 3 2-1.343 2-3 2m0-8c1.11 0 2.08.402 2.599 1M12 8V7m0 1v8m0 0v1m0-1c-1.11 0-2.08-.402-2.599-1"></path>'',
    ''      </svg>'']\<close>

definition icon_education :: string where
  \<open>icon_education = lines [
    ''<svg class="w-8 h-8 text-white" fill="none" stroke="currentColor" viewBox="0 0 24 24">'',
    ''        <path stroke-linecap="round" stroke-linejoin="round" stroke-width="2" d="M12 6.253v13m0-13C10.832 5.477 9.246 5 7.5 5S4.168 5.477 3 6.253v13C4.168 18.477 5.754 18 7.5 18s3.332.477 4.5 1.253m0-13C13.168 5.477 14.754 5 16.5 5c1.746 0 3.332.477 4.5 1.253v13C19.832 18.477 18.246 18 16.5 18c-1.746 0-3.332.477-4.5 1.253"></path>'',
    ''      </svg>'']\<close>

definition icon_marketing :: string where
  \<open>icon_marketing = lines [
    ''<svg class="w-8 h-8 text-white" fill="none" stroke="currentColor" viewBox="0 0 24 24">'',
    ''        <path stroke-linecap="round" stroke-linejoin="round" stroke-width="2" d="M11 5.882V19.24a1.76 1.76 0 01-3.417.592l-2.147-6.15M18 13a3 3 0 100-6M5.436 13.683A4.001 4.001 0 017 6h1.832c4.1 0 7.625-1.234 9.168-3v14c-1.543-1.766-5.067-3-9.168-3H7a3.988 3.988 0 01-1.564-.317z"></path>'',
    ''      </svg>'']\<close>

definition icon_sales :: string where
  \<open>icon_sales = lines [
    ''<svg class="w-8 h-8 text-white" fill="none" stroke="currentColor" viewBox="0 0 24 24">'',
    ''        <path stroke-linecap="round" stroke-linejoin="round" stroke-width="2" d="M16 11V7a4 4 0 00-8 0v4M5 9h14l1 12H4L5 9z"></path>'',
    ''      </svg>'']\<close>

definition icon_consulting :: string where
  \<open>icon_consulting = lines [
    ''<svg class="w-8 h-8 text-white" fill="none" stroke="currentColor" viewBox="0 0 24 24">'',
    ''        <path stroke-linecap="round" stroke-linejoin="round" stroke-width="2" d="M8.228 9c.549-1.165 2.03-2 3.772-2 2.21 0 4 1.343 4 3 0 1.4-1.278 2.575-3.006 2.907-.542.104-.994.54-.994 1.093m0 3h.01M21 12a9 9 0 11-18 0 9 9 0 0118 0z"></path>'',
    ''      </svg>'']\<close>

definition projectsRow_1 :: string where
  \<open>projectsRow_1 = lines [
    '''',
    ''      <div class="'']\<close>

definition projectsRow_2 :: string where
  \<open>projectsRow_2 = lines [
    ''">'',
    ''          '']\<close>

definition projectsRow_3 :: string where
  \<open>projectsRow_3 = lines [
    '''',
    ''            <div class="'']\<close>

definition projectsRow_4 :: string where
  \<open>projectsRow_4 = lines [
    ''">'',
    ''                <div class="group card border-0 shadow-lg hover:shadow-xl transition-all duration-300 hover:-translate-y-1 overflow-hidden h-full">'',
    ''                    <div class="h-48 overflow-hidden flex items-center justify-center '']\<close>

definition projectsRow_5 :: string where
  \<open>projectsRow_5 = lines [
    ''">'',
    ''                        '']\<close>

definition projectsRow_6 :: string where
  \<open>projectsRow_6 = lines [
    '''',
    ''                            <img src="'']\<close>

definition projectsRow_7 :: string where
  \<open>projectsRow_7 = ''" alt="''\<close>

definition projectsRow_8 :: string where
  \<open>projectsRow_8 = ''" class="w-full h-full object-''\<close>

definition projectsRow_9 :: string where
  \<open>projectsRow_9 = lines [
    '' transition-transform duration-300 group-hover:scale-105">'',
    ''                        '']\<close>

definition projectsRow_10 :: string where
  \<open>projectsRow_10 = lines [
    '''',
    ''                            <svg class="w-12 h-12 text-gray-400" fill="currentColor" viewBox="0 0 20 20">'',
    ''                                <path fill-rule="evenodd" d="M4 3a2 2 0 00-2 2v10a2 2 0 002 2h12a2 2 0 002-2V5a2 2 0 00-2-2H4zm12 12H4l4-8 3 6 2-4 3 6z" clip-rule="evenodd"></path>'',
    ''                            </svg>'',
    ''                        '']\<close>

definition projectsRow_11 :: string where
  \<open>projectsRow_11 = lines [
    '''',
    ''                    </div>'',
    ''                    <div class="card-content p-6 flex flex-col h-full">'',
    ''                        <h3 class="text-xl font-bold mb-3 group-hover:text-[var(--secondary-theme)] transition-colors duration-300" style="color: var(--primary-theme);">'',
    ''                            '']\<close>

definition projectsRow_12 :: string where
  \<open>projectsRow_12 = lines [
    '''',
    ''                        </h3>'',
    ''                        <p class="text-gray-600 text-sm leading-relaxed mb-4 line-clamp-4 flex-grow">'',
    ''                            '']\<close>

definition projectsRow_13 :: string where
  \<open>projectsRow_13 = lines [
    '''',
    ''                        </p>'',
    ''                        '']\<close>

definition projectsRow_14 :: string where
  \<open>projectsRow_14 = lines [
    '''',
    ''                            <div class="flex flex-wrap gap-2 mb-4">'',
    ''                                '']\<close>

definition projectsRow_15 :: string where
  \<open>projectsRow_15 = lines [
    '''',
    ''                                    <span class="badge badge-secondary px-3 py-1" style="background-color: '']\<close>

definition projectsRow_16 :: string where
  \<open>projectsRow_16 = ''10; color: ''\<close>

definition projectsRow_17 :: string where
  \<open>projectsRow_17 = lines [
    '';">'',
    ''                                        '']\<close>

definition projectsRow_18 :: string where
  \<open>projectsRow_18 = lines [
    '''',
    ''                                    </span>'',
    ''                                '']\<close>

definition projectsRow_19 :: string where
  \<open>projectsRow_19 = lines [
    '''',
    ''                                '']\<close>

definition projectsRow_20 :: string where
  \<open>projectsRow_20 = lines [
    '''',
    ''                                    <span class="badge badge-secondary px-3 py-1 bg-gray-100 text-gray-600">'',
    ''                                        +'']\<close>

definition projectsRow_21 :: string where
  \<open>projectsRow_21 = lines [
    '' more'',
    ''                                    </span>'',
    ''                                '']\<close>

definition projectsRow_22 :: string where
  \<open>projectsRow_22 = lines [
    '''',
    ''                            </div>'',
    ''                        '']\<close>

definition projectsRow_23 :: string where
  \<open>projectsRow_23 = lines [
    '''',
    ''                        <div class="flex items-center mt-auto" style="color: var(--primary-theme);">'',
    ''                            <span class="text-sm font-semibold">View Project</span>'',
    ''                            <svg class="w-4 h-4 ml-2 transform group-hover:translate-x-1 transition-transform duration-300" fill="none" stroke="currentColor" viewBox="0 0 24 24">'',
    ''                                <path stroke-linecap="round" stroke-linejoin="round" stroke-width="2" d="M14 5l7 7m0 0l-7 7m7-7H3"></path>'',
    ''                            </svg>'',
    ''                        </div>'',
    ''                    </div>'',
    ''                </div>'',
    ''            </div>'',
    ''          '']\<close>

definition projectsRow_24 :: string where
  \<open>projectsRow_24 = lines [
    '''',
    ''      </div>'',
    ''    '']\<close>

definition projects_1 :: string where
  \<open>projects_1 = lines [
    '''',
    ''    <section id="projects" class="py-20 bg-gray-50">'',
    ''        <div class="max-w-7xl mx-auto px-4 sm:px-6 lg:px-8">'',
    ''            <div class="text-center mb-16">'',
    ''                <h2 class="text-4xl md:text-5xl font-bold mb-6" style="color: '']\<close>

definition projects_2 :: string where
  \<open>projects_2 = lines [
    '';">Featured Projects</h2>'',
    ''                <p class="text-lg text-gray-600 max-w-3xl mx-auto">'',
    ''                    '']\<close>

definition projects_3 :: string where
  \<open>projects_3 = lines [
    '''',
    ''                </p>'',
    ''            </div>'',
    ''            '']\<close>

definition projects_4 :: string where
  \<open>projects_4 = lines [
    '''',
    ''            <div class="text-center mt-16">'',
    ''                <p class="text-gray-600 mb-6">'',
    ''                    Interested in learning more about my work or think I could be a good fit for your team?'',
    ''                </p>'',
    ''                <a href="#contact" class="inline-block px-8 py-3 rounded-lg transition-all duration-300 hover:scale-105 text-white" style="background-color: '']\<close>

definition projects_5 :: string where
  \<open>projects_5 = lines [
    '';">'',
    ''                    Get In Touch'',
    ''                </a>'',
    ''            </div>'',
    ''        </div>'',
    ''    </section>'',
    ''  '']\<close>

definition timeline_1 :: string where
  \<open>timeline_1 = lines [
    '''',
    ''    <section id="timeline" class="py-20 bg-white">'',
    ''        <div class="max-w-7xl mx-auto px-4 sm:px-6 lg:px-8">'',
    ''            <div class="text-center mb-16">'',
    ''                <h2 class="text-4xl md:text-5xl font-bold mb-6" style="color: '']\<close>

definition timeline_2 :: string where
  \<open>timeline_2 = lines [
    '';">Resume</h2>'',
    ''                <p class="text-lg text-gray-600 max-w-3xl mx-auto mb-8">'',
    ''                    '']\<close>

definition timeline_3 :: string where
  \<open>timeline_3 = lines [
    '''',
    ''                </p>'',
    ''                '']\<close>

definition timeline_4 :: string where
  \<open>timeline_4 = lines [
    '''',
    ''                    <div class="flex gap-4 justify-center mb-8">'',
    ''                        '']\<close>

definition timeline_5 :: string where
  \<open>timeline_5 = lines [
    '''',
    ''                            <a href="'']\<close>

definition timeline_6 :: string where
  \<open>timeline_6 = lines [
    ''" target="_blank" rel="noopener noreferrer">'',
    ''                                <button class="inline-flex items-center justify-center gap-2 whitespace-nowrap h-11 px-8 py-3 rounded-lg shadow-lg border bg-transparent transition-all duration-300 hover:scale-105 text-sm font-medium" '',
    ''                                        style="border-color: '']\<close>

definition timeline_7 :: string where
  \<open>timeline_7 = ''; color: ''\<close>

definition timeline_8 :: string where
  \<open>timeline_8 = lines [
    '';"'',
    (''                                        onmouseenter="this.style.backgroundColor='' @ [CHR 0x27])]\<close>

definition timeline_9 :: string where
  \<open>timeline_9 = lines [
    ''\'; this.style.color=\'white\';"'',
    (''                                        onmouseleave="this.style.backgroundColor=\'transparent\'; this.style.color='' @ [CHR 0x27])]\<close>

definition timeline_10 :: string where
  \<open>timeline_10 = lines [
    ''\';">'',
    ''                                    <svg class="w-5 h-5" fill="none" stroke="currentColor" viewBox="0 0 24 24">'',
    ''                                        <path stroke-linecap="round" stroke-linejoin="round" stroke-width="2" d="M4 16v1a3 3 0 003 3h10a3 3 0 003-3v-1m-4-4l-4 4m0 0l-4-4m4 4V4"></path>'',
    ''                                    </svg>'',
    ''                                    Download Resume PDF'',
    ''                                </button>'',
    ''                            </a>'',
    ''                        '']\<close>

definition timeline_11 :: string where
  \<open>timeline_11 = lines [
    '''',
    ''                        '']\<close>

definition timeline_12 :: string where
  \<open>timeline_12 = lines [
    '''',
    ''                            <a href="'']\<close>

definition timeline_13 :: string where
  \<open>timeline_13 = lines [
    ''" target="_blank" rel="noopener noreferrer">'',
    ''                                <button class="inline-flex items-center justify-center gap-2 whitespace-nowrap h-11 px-8 py-3 rounded-lg shadow-lg border bg-transparent transition-all duration-300 hover:scale-105 text-sm font-medium" '',
    ''                                        style="border-color: '']\<close>

definition timeline_14 :: string where
  \<open>timeline_14 = ''; color: ''\<close>

definition timeline_15 :: string where
  \<open>timeline_15 = lines [
    '';"'',
    (''                                        onmouseenter="this.style.backgroundColor='' @ [CHR 0x27])]\<close>

definition timeline_16 :: string where
  \<open>timeline_16 = lines [
    ''\'; this.style.color=\'white\';"'',
    (''                                        onmouseleave="this.style.backgroundColor=\'transparent\'; this.style.color='' @ [CHR 0x27])]\<close>

definition timeline_17 :: string where
  \<open>timeline_17 = lines [
    ''\';">'',
    ''                                    <svg class="w-5 h-5" fill="none" stroke="currentColor" viewBox="0 0 24 24">'',
    ''                                        <path stroke-linecap="round" stroke-linejoin="round" stroke-width="2" d="M4 16v1a3 3 0 003 3h10a3 3 0 003-3v-1m-4-4l-4 4m0 0l-4-4m4 4V4"></path>'',
    ''                                    </svg>'',
    ''                                    Download References PDF'',
    ''                                </button>'',
    ''                            </a>'',
    ''                        '']\<close>

definition timeline_18 :: string where
  \<open>timeline_18 = lines [
    '''',
    ''                    </div>'',
    ''                '']\<close>

definition timeline_19 :: string where
  \<open>timeline_19 = lines [
    '''',
    ''            </div>'',
    ''            <div class="max-w-4xl mx-auto">'',
    ''                <h3 class="text-2xl font-bold mb-8 text-center" style="color: '']\<close>

definition timeline_20 :: string where
  \<open>timeline_20 = '';">''\<close>

definition timeline_21 :: string where
  \<open>timeline_21 = lines [
    ''</h3>'',
    ''                <div class="relative">'',
    ''                    <div class="timeline-line"></div>'',
    ''                    '']\<close>

definition timeline_22 :: string where
  \<open>timeline_22 = lines [
    '''',
    ''                        <div class="flex items-center mb-12 '']\<close>

definition timeline_23 :: string where
  \<open>timeline_23 = lines [
    ''">'',
    ''                            <div class="w-1/2 '']\<close>

definition timeline_24 :: string where
  \<open>timeline_24 = lines [
    ''">'',
    ''                                <div class="card border-0 shadow-lg hover:shadow-xl transition-shadow duration-300">'',
    ''                                    <div class="card-content p-6">'',
    ''                                        <div class="flex items-center mb-2">'',
    ''                                            <span class="badge text-white mr-3" style="background-color: '']\<close>

definition timeline_25 :: string where
  \<open>timeline_25 = lines [
    '';">'',
    ''                                                '']\<close>

definition timeline_26 :: string where
  \<open>timeline_26 = lines [
    '''',
    ''                                            </span>'',
    ''                                            <span class="text-sm font-semibold text-gray-500">'']\<close>

definition timeline_27 :: string where
  \<open>timeline_27 = lines [
    ''</span>'',
    ''                                        </div>'',
    ''                                        <h4 class="text-lg font-bold mb-2" style="color: '']\<close>

definition timeline_28 :: string where
  \<open>timeline_28 = '';">''\<close>

definition timeline_29 :: string where
  \<open>timeline_29 = lines [
    ''</h4>'',
    ''                                        <p class="font-semibold mb-3" style="color: '']\<close>

definition timeline_30 :: string where
  \<open>timeline_30 = '';">''\<close>

definition timeline_31 :: string where
  \<open>timeline_31 = lines [
    ''</p>'',
    ''                                        '']\<close>

definition timeline_32 :: string where
  \<open>timeline_32 = ''<p class="text-gray-600 text-sm leading-relaxed">''\<close>

definition timeline_33 :: string where
  \<open>timeline_33 = ''</p>''\<close>

definition timeline_34 :: string where
  \<open>timeline_34 = lines [
    '''',
    ''                                    </div>'',
    ''                                </div>'',
    ''                            </div>'',
    ''                            <div class="relative z-10">'',
    ''                                <div class="timeline-dot"></div>'',
    ''                            </div>'',
    ''                            <div class="w-1/2"></div>'',
    ''                        </div>'',
    ''                      '']\<close>

definition timeline_35 :: string where
  \<open>timeline_35 = lines [
    '''',
    ''                </div>'',
    ''            </div>'',
    ''        </div>'',
    ''    </section>'',
    ''  '']\<close>

definition contact_1 :: string where
  \<open>contact_1 = lines [
    '''',
    ''    <section id="contact" class="py-20 bg-white">'',
    ''        <div class="max-w-7xl mx-auto px-4 sm:px-6 lg:px-8">'',
    ''            <div class="text-center mb-16">'',
    ''                <h2 class="text-4xl md:text-5xl font-bold mb-6" style="color: '']\<close>

definition contact_2 :: string where
  \<open>contact_2 = lines [
    '';">Get In Touch</h2>'',
    ''                <p class="text-lg text-gray-600 max-w-3xl mx-auto">'',
    ''                    '']\<close>

definition contact_3 :: string where
  \<open>contact_3 = lines [
    '''',
    ''                </p>'',
    ''            </div>'',
    ''            <div class="max-w-3xl mx-auto">'',
    ''                <div class="flex flex-wrap md:flex-nowrap justify-center gap-6 text-center">'',
    ''                    '']\<close>

definition contact_4 :: string where
  \<open>contact_4 = lines [
    '''',
    ''                        <div class="flex flex-col items-center w-56">'',
    ''                            <div class="w-16 h-16 rounded-full flex items-center justify-center mb-4" style="background-color: '']\<close>

definition contact_5 :: string where
  \<open>contact_5 = lines [
    '';">'',
    ''                                <svg class="w-8 h-8 text-white" fill="none" stroke="currentColor" viewBox="0 0 24 24">'',
    ''                                    <path stroke-linecap="round" stroke-linejoin="round" stroke-width="2" d="M3 8l7.89 5.26a2 2 0 002.22 0L21 8M5 19h14a2 2 0 002-2V7a2 2 0 00-2-2H5a2 2 0 00-2 2v10a2 2 0 002 2z"></path>'',
    ''                                </svg>'',
    ''                            </div>'',
    ''                            <h4 class="font-semibold text-gray-900 mb-2">Email</h4>'',
    ''                            <a href="mailto:'']\<close>

definition contact_6 :: string where
  \<open>contact_6 = lines [
    ''" '',
    ''                               class="transition-colors" '',
    ''                               style="color: '']\<close>

definition contact_7 :: string where
  \<open>contact_7 = lines [
    '';"'',
    (''                               onmouseenter="this.style.color='' @ [CHR 0x27])]\<close>

definition contact_8 :: string where
  \<open>contact_8 = lines [
    ''\'"'',
    (''                               onmouseleave="this.style.color='' @ [CHR 0x27])]\<close>

definition contact_9 :: string where
  \<open>contact_9 = lines [
    ''\'">'',
    ''                                '']\<close>

definition contact_10 :: string where
  \<open>contact_10 = lines [
    '''',
    ''                            </a>'',
    ''                        </div>'',
    ''                    '']\<close>

definition contact_11 :: string where
  \<open>contact_11 = lines [
    '''',
    ''                    '']\<close>

definition contact_12 :: string where
  \<open>contact_12 = lines [
    '''',
    ''                        <div class="flex flex-col items-center w-56">'',
    ''                            <div class="w-16 h-16 rounded-full flex items-center justify-center mb-4" style="background-color: '']\<close>

definition contact_13 :: string where
  \<open>contact_13 = lines [
    '';">'',
    ''                                <svg class="w-8 h-8 text-white" fill="none" stroke="currentColor" viewBox="0 0 24 24">'',
    ''                                    <path stroke-linecap="round" stroke-linejoin="round" stroke-width="2" d="M16 8a6 6 0 016 6v7h-4v-7a2 2 0 00-2-2 2 2 0 00-2 2v7h-4v-7a6 6 0 016-6zM2 9h4v12H2z"></path>'',
    ''                                    <circle cx="4" cy="4" r="2" stroke-linecap="round" stroke-linejoin="round" stroke-width="2"></circle>'',
    ''                                </svg>'',
    ''                            </div>'',
    ''                            <h4 class="font-semibold text-gray-900 mb-2">LinkedIn</h4>'',
    ''                            <a href="'']\<close>

definition contact_14 :: string where
  \<open>contact_14 = lines [
    ''" '',
    ''                               target="_blank" '',
    ''                               rel="noopener noreferrer"'',
    ''                               class="transition-colors" '',
    ''                               style="color: '']\<close>

definition contact_15 :: string where
  \<open>contact_15 = lines [
    '';"'',
    (''                               onmouseenter="this.style.color='' @ [CHR 0x27])]\<close>

definition contact_16 :: string where
  \<open>contact_16 = lines [
    ''\'"'',
    (''                               onmouseleave="this.style.color='' @ [CHR 0x27])]\<close>

definition contact_17 :: string where
  \<open>contact_17 = lines [
    ''\'">'',
    ''                                '']\<close>

definition contact_18 :: string where
  \<open>contact_18 = lines [
    '''',
    ''                            </a>'',
    ''                        </div>'',
    ''                    '']\<close>

definition contact_19 :: string where
  \<open>contact_19 = lines [
    '''',
    ''                    '']\<close>

definition contact_20 :: string where
  \<open>contact_20 = lines [
    '''',
    ''                        <div class="flex flex-col items-center w-56">'',
    ''                            <div class="w-16 h-16 rounded-full flex items-center justify-center mb-4" style="background-color: '']\<close>

definition contact_21 :: string where
  \<open>contact_21 = lines [
    '';">'',
    ''                                <svg class="w-8 h-8 text-white" fill="none" stroke="currentColor" viewBox="0 0 24 24">'',
    ''                                    <path stroke-linecap="round" stroke-linejoin="round" stroke-width="2" d="M3 5a2 2 0 012-2h3.28a1 1 0 01.948.684l1.498 4.493a1 1 0 01-.502 1.21l-2.257 1.13a11.042 11.042 0 005.516 5.516l1.13-2.257a1 1 0 011.21-.502l4.493 1.498a1 1 0 01.684.949V19a2 2 0 01-2 2h-1C9.716 21 3 14.284 3 6V5z"></path>'',
    ''                                </svg>'',
    ''                            </div>'',
    ''                            <h4 class="font-semibold text-gray-900 mb-2">Phone</h4>'',
    ''                            <a href="tel:'']\<close>

definition contact_22 :: string where
  \<open>contact_22 = lines [
    ''" '',
    ''                               class="transition-colors" '',
    ''                               style="color: '']\<close>

definition contact_23 :: string where
  \<open>contact_23 = lines [
    '';"'',
    (''                               onmouseenter="this.style.color='' @ [CHR 0x27])]\<close>

definition contact_24 :: string where
  \<open>contact_24 = lines [
    ''\'"'',
    (''                               onmouseleave="this.style.color='' @ [CHR 0x27])]\<close>

definition contact_25 :: string where
  \<open>contact_25 = lines [
    ''\'">'',
    ''                                '']\<close>

definition contact_26 :: string where
  \<open>contact_26 = lines [
    '''',
    ''                            </a>'',
    ''                        </div>'',
    ''                    '']\<close>

definition contact_27 :: string where
  \<open>contact_27 = lines [
    '''',
    ''                    '']\<close>

definition contact_28 :: string where
  \<open>contact_28 = lines [
    '''',
    ''                        <div class="flex flex-col items-center w-56">'',
    ''                            <div class="w-16 h-16 rounded-full flex items-center justify-center mb-4" style="background-color: '']\<close>

definition contact_29 :: string where
  \<open>contact_29 = lines [
    '';">'',
    ''                                <svg class="w-8 h-8 text-white" fill="currentColor" viewBox="0 0 20 20">'',
    ''                                    <path fill-rule="evenodd" d="M10 0C4.477 0 0 4.484 0 10.017c0 4.425 2.865 8.18 6.839 9.504.5.092.682-.217.682-.483 0-.237-.008-.868-.013-1.703-2.782.605-3.369-1.343-3.369-1.343-.454-1.158-1.11-1.466-1.11-1.466-.908-.62.069-.608.069-.608 1.003.07 1.531 1.032 1.531 1.032.892 1.53 2.341 1.088 2.91.832.092-.647.35-1.088.636-1.338-2.22-.253-4.555-1.113-4.555-4.951 0-1.093.39-1.988 1.029-2.688-.103-.253-.446-1.272.098-2.65 0 0 .84-.27 2.75 1.026A9.564 9.564 0 0110 4.844c.85.004 1.705.115 2.504.337 1.909-1.296 2.747-1.027 2.747-1.027.546 1.379.203 2.398.1 2.651.64.7 1.028 1.595 1.028 2.688 0 3.848-2.339 4.695-4.566 4.942.359.31.678.921.678 1.856 0 1.338-.012 2.419-.012 2.747 0 .268.18.58.688.482A10.019 10.019 0 0020 10.017C20 4.484 15.522 0 10 0z" clip-rule="evenodd"></path>'',
    ''                                </svg>'',
    ''                            </div>'',
    ''                            <h4 class="font-semibold text-gray-900 mb-2">GitHub</h4>'',
    ''                            <a href="'']\<close>

definition contact_30 :: string where
  \<open>contact_30 = lines [
    ''" '',
    ''                               target="_blank" '',
    ''                               rel="noopener noreferrer"'',
    ''                               class="transition-colors" '',
    ''                               style="color: '']\<close>

definition contact_31 :: string where
  \<open>contact_31 = lines [
    '';"'',
    (''                               onmouseenter="this.style.color='' @ [CHR 0x27])]\<close>

definition contact_32 :: string where
  \<open>contact_32 = lines [
    ''\'"'',
    (''                               onmouseleave="this.style.color='' @ [CHR 0x27])]\<close>

definition contact_33 :: string where
  \<open>contact_33 = lines [
    ''\'">'',
    ''                                '']\<close>

definition contact_34 :: string where
  \<open>contact_34 = lines [
    '''',
    ''                            </a>'',
    ''                        </div>'',
    ''                    '']\<close>

definition contact_35 :: string where
  \<open>contact_35 = lines [
    '''',
    ''                </div>'',
    ''                '',
    ''                '']\<close>

definition contact_36 :: string where
  \<open>contact_36 = lines [
    '''',
    ''                    <div class="mt-12 text-center">'',
    ''                        <h4 class="font-semibold text-gray-900 mb-4">Areas of Interest</h4>'',
    ''                        <div class="flex flex-wrap justify-center gap-2">'',
    ''                            '']\<close>

definition contact_37 :: string where
  \<open>contact_37 = lines [
    '''',
    ''                                <span class="px-3 py-1 rounded-full text-sm font-medium transition-colors" '',
    ''                                      style="background-color: '']\<close>

definition contact_38 :: string where
  \<open>contact_38 = ''10; color: ''\<close>

definition contact_39 :: string where
  \<open>contact_39 = lines [
    '';">'',
    ''                                    '']\<close>

definition contact_40 :: string where
  \<open>contact_40 = lines [
    '''',
    ''                                </span>'',
    ''                            '']\<close>

definition contact_41 :: string where
  \<open>contact_41 = lines [
    '''',
    ''                        </div>'',
    ''                    </div>'',
    ''                '']\<close>

definition contact_42 :: string where
  \<open>contact_42 = lines [
    '''',
    ''            </div>'',
    ''        </div>'',
    ''    </section>'',
    ''  '']\<close>

definition footer_1 :: string where
  \<open>footer_1 = lines [
    '''',
    ''    <footer class="text-white py-12" style="background-color: '']\<close>

definition footer_2 :: string where
  \<open>footer_2 = lines [
    '';">'',
    ''        <div class="max-w-7xl mx-auto px-4 sm:px-6 lg:px-8">'',
    ''            <div class="text-center">'',
    ''                <h3 class="text-2xl font-bold mb-4">'']\<close>

definition footer_3 :: string where
  \<open>footer_3 = lines [
    ''</h3>'',
    ''                <p class="mb-6" style="color: '']\<close>

definition footer_4 :: string where
  \<open>footer_4 = lines [
    '';">'',
    ''                    '']\<close>

definition footer_5 :: string where
  \<open>footer_5 = lines [
    '''',
    ''                </p>'',
    ''                <div class="flex justify-center space-x-6">'',
    ''                    '']\<close>

definition footer_6 :: string where
  \<open>footer_6 = lines [
    '''',
    ''                        <a href="mailto:'']\<close>

definition footer_7 :: string where
  \<open>footer_7 = lines [
    ''" '',
    ''                           class="transition-colors" '',
    ''                           style="color: '']\<close>

definition footer_8 :: string where
  \<open>footer_8 = lines [
    '';"'',
    ''                           onmouseenter="this.style.color=\'white\'"'',
    (''                           onmouseleave="this.style.color='' @ [CHR 0x27])]\<close>

definition footer_9 :: string where
  \<open>footer_9 = lines [
    ''\'">'',
    ''                            <svg class="w-6 h-6" fill="none" stroke="currentColor" viewBox="0 0 24 24">'',
    ''                                <path stroke-linecap="round" stroke-linejoin="round" stroke-width="2" d="M3 8l7.89 5.26a2 2 0 002.22 0L21 8M5 19h14a2 2 0 002-2V7a2 2 0 00-2-2H5a2 2 0 00-2 2v10a2 2 0 002 2z"></path>'',
    ''                            </svg>'',
    ''                        </a>'',
    ''                    '']\<close>

definition footer_10 :: string where
  \<open>footer_10 = lines [
    '''',
    ''                    '']\<close>

definition footer_11 :: string where
  \<open>footer_11 = lines [
    '''',
    ''                        <a href="'']\<close>

definition footer_12 :: string where
  \<open>footer_12 = lines [
    ''" '',
    ''                           target="_blank" '',
    ''                           rel="noopener noreferrer"'',
    ''                           class="transition-colors" '',
    ''                           style="color: '']\<close>

definition footer_13 :: string where
  \<open>footer_13 = lines [
    '';"'',
    ''                           onmouseenter="this.style.color=\'white\'"'',
    (''                           onmouseleave="this.style.color='' @ [CHR 0x27])]\<close>

definition footer_14 :: string where
  \<open>footer_14 = lines [
    ''\'">'',
    ''                            <svg class="w-6 h-6" fill="none" stroke="currentColor" viewBox="0 0 24 24">'',
    ''                                <path stroke-linecap="round" stroke-linejoin="round" stroke-width="2" d="M16 8a6 6 0 016 6v7h-4v-7a2 2 0 00-2-2 2 2 0 00-2 2v7h-4v-7a6 6 0 016-6zM2 9h4v12H2z"></path>'',
    ''                                <circle cx="4" cy="4" r="2" stroke-linecap="round" stroke-linejoin="round" stroke-width="2"></circle>'',
    ''                            </svg>'',
    ''                        </a>'',
    ''                    '']\<close>

definition footer_15 :: string where
  \<open>footer_15 = lines [
    '''',
    ''                    '']\<close>

definition footer_16 :: string where
  \<open>footer_16 = lines [
    '''',
    ''                        <a href="'']\<close>

definition footer_17 :: string where
  \<open>footer_17 = lines [
    ''" '',
    ''                           target="_blank" '',
    ''                           rel="noopener noreferrer"'',
    ''                           class="transition-colors" '',
    ''                           style="color: '']\<close>

definition footer_18 :: string where
  \<open>footer_18 = lines [
    '';"'',
    ''                           onmouseenter="this.style.color=\'white\'"'',
    (''                           onmouseleave="this.style.color='' @ [CHR 0x27])]\<close>

definition footer_19 :: string where
  \<open>footer_19 = lines [
    ''\'">'',
    ''                            <svg class="w-6 h-6" fill="currentColor" viewBox="0 0 20 20">'',
    ''                                <path fill-rule="evenodd" d="M10 0C4.477 0 0 4.484 0 10.017c0 4.425 2.865 8.18 6.839 9.504.5.092.682-.217.682-.483 0-.237-.008-.868-.013-1.703-2.782.605-3.369-1.343-3.369-1.343-.454-1.158-1.11-1.466-1.11-1.466-.908-.62.069-.608.069-.608 1.003.07 1.531 1.032 1.531 1.032.892 1.53 2.341 1.088 2.91.832.092-.647.35-1.088.636-1.338-2.22-.253-4.555-1.113-4.555-4.951 0-1.093.39-1.988 1.029-2.688-.103-.253-.446-1.272.098-2.65 0 0 .84-.27 2.75 1.026A9.564 9.564 0 0110 4.844c.85.004 1.705.115 2.504.337 1.909-1.296 2.747-1.027 2.747-1.027.546 1.379.203 2.398.1 2.651.64.7 1.028 1.595 1.028 2.688 0 3.848-2.339 4.695-4.566 4.942.359.31.678.921.678 1.856 0 1.338-.012 2.419-.012 2.747 0 .268.18.58.688.482A10.019 10.019 0 0020 10.017C20 4.484 15.522 0 10 0z" clip-rule="evenodd"></path>'',
    ''                            </svg>'',
    ''                        </a>'',
    ''                    '']\<close>

definition footer_20 :: string where
  \<open>footer_20 = lines [
    '''',
    ''                </div>'',
    ''                <div class="mt-8 pt-8" style="border-top: 1px solid '']\<close>

definition footer_21 :: string where
  \<open>footer_21 = lines [
    '';">'',
    ''                    <p class="text-sm" style="color: '']\<close>

definition footer_22 :: string where
  \<open>footer_22 = lines [
    '';">'',
    (''                        '' @ [CHR 0xA9] @ '' 2025 '')]\<close>

definition footer_23 :: string where
  \<open>footer_23 = lines [
    ''. All rights reserved. Built with Next.js and Tailwind CSS.'',
    ''                    </p>'',
    ''                </div>'',
    ''            </div>'',
    ''        </div>'',
    ''    </footer>'',
    ''  '']\<close>

definition refsPage_1 :: string where
  \<open>refsPage_1 = lines [
    ''<!DOCTYPE html>'',
    ''<html lang="en">'',
    ''<head>'',
    ''    <meta charset="UTF-8">'',
    ''    <meta name="viewport" content="width=device-width, initial-scale=1.0">'',
    ''    <title>References - '']\<close>

definition refsPage_2 :: string where
  \<open>refsPage_2 = lines [
    ''</title>'',
    ''    <script src="https://cdn.tailwindcss.com"></script>'',
    ''    <style>'',
    ''        body { '',
    ''            font-family: -apple-system, BlinkMacSystemFont, \'Segoe UI\', \'Roboto\', \'Oxygen\', \'Ubuntu\', \'Cantarell\', \'Fira Sans\', \'Droid Sans\', \'Helvetica Neue\', sans-serif;'',
    ''            -webkit-font-smoothing: antialiased;'',
    ''            -moz-osx-font-smoothing: grayscale;'',
    ''        }'',
    ''    </style>'',
    ''</head>'',
    ''<body>'',
    ''    <!-- Navigation -->'',
    ''    <nav class="fixed top-0 w-full bg-white/90 backdrop-blur-sm border-b border-gray-100 z-50">'',
    ''        <div class="max-w-7xl mx-auto px-4 sm:px-6 lg:px-8">'',
    ''            <div class="flex justify-between items-center h-16">'',
    ''                <a href="index.html" '',
    ''                   class="font-bold text-xl transition-colors cursor-pointer"'',
    ''                   style="color: '']\<close>

definition refsPage_3 :: string where
  \<open>refsPage_3 = lines [
    '';"'',
    (''                   onmouseenter="this.style.color='' @ [CHR 0x27])]\<close>

definition refsPage_4 :: string where
  \<open>refsPage_4 = lines [
    ''\'"'',
    (''                   onmouseleave="this.style.color='' @ [CHR 0x27])]\<close>

definition refsPage_5 :: string where
  \<open>refsPage_5 = lines [
    ''\'">'',
    ''                    '']\<close>

definition refsPage_6 :: string where
  \<open>refsPage_6 = lines [
    '''',
    ''                </a>'',
    ''                <div class="hidden md:flex space-x-8">'',
    (''                    <a href="index.html#about" class="text-gray-700 transition-colors" onmouseenter="this.style.color='' @ [CHR 0x27])]\<close>

definition refsPage_7 :: string where
  \<open>refsPage_7 = lines [
    ''\'" onmouseleave="this.style.color=\'#374151\'">About</a>'',
    (''                    <a href="index.html#projects" class="text-gray-700 transition-colors" onmouseenter="this.style.color='' @ [CHR 0x27])]\<close>

definition refsPage_8 :: string where
  \<open>refsPage_8 = lines [
    ''\'" onmouseleave="this.style.color=\'#374151\'">Projects</a>'',
    (''                    <a href="index.html#timeline" class="text-gray-700 transition-colors" onmouseenter="this.style.color='' @ [CHR 0x27])]\<close>

definition refsPage_9 :: string where
  \<open>refsPage_9 = lines [
    ''\'" onmouseleave="this.style.color=\'#374151\'">Resume</a>'',
    ''                    <span class="font-semibold" style="color: '']\<close>

definition refsPage_10 :: string where
  \<open>refsPage_10 = lines [
    '';">References</span>'',
    (''                    <a href="index.html#contact" class="text-gray-700 transition-colors" onmouseenter="this.style.color='' @ [CHR 0x27])]\<close>

definition refsPage_11 :: string where
  \<open>refsPage_11 = lines [
    ''\'" onmouseleave="this.style.color=\'#374151\'">Contact</a>'',
    ''                </div>'',
    ''            </div>'',
    ''        </div>'',
    ''    </nav>'',
    '''',
    ''    <!-- Header Section -->'',
    ''    <section class="pt-24 pb-12 text-white" style="background: linear-gradient(135deg, '']\<close>

definition refsPage_12 :: string where
  \<open>refsPage_12 = '', ''\<close>

definition refsPage_13 :: string where
  \<open>refsPage_13 = lines [
    '');">'',
    ''        <div class="max-w-7xl mx-auto px-4 sm:px-6 lg:px-8">'',
    ''            <div class="text-center">'',
    ''                <a href="index.html" class="inline-flex items-center text-blue-200 hover:text-white transition-colors mb-6">'',
    ''                    <svg class="w-5 h-5 mr-2" fill="none" stroke="currentColor" viewBox="0 0 24 24">'',
    ''                        <path stroke-linecap="round" stroke-linejoin="round" stroke-width="2" d="M19 12H5M12 19l-7-7 7-7"></path>'',
    ''                    </svg>'',
    ''                    Back to Portfolio'',
    ''                </a>'',
    ''                <h1 class="text-4xl md:text-5xl font-bold mb-6">Professional References</h1>'',
    ''                <p class="text-lg md:text-xl text-blue-100 max-w-3xl mx-auto mb-8">'',
    ''                    Below are professional references who can speak to my technical skills, work ethic, and contributions in academic and industry settings.'',
    ''                </p>'',
    ''                '']\<close>

definition refsPage_14 :: string where
  \<open>refsPage_14 = lines [
    '''',
    ''                    <a href="'']\<close>

definition refsPage_15 :: string where
  \<open>refsPage_15 = lines [
    ''" download="References.pdf" target="_blank" rel="noopener noreferrer">'',
    ''                        <button class="inline-flex items-center justify-center bg-white text-sm font-medium h-11 px-8 rounded-lg transition-all duration-300 hover:scale-105 shadow-lg hover:bg-gray-100"'',
    ''                                style="color: '']\<close>

definition refsPage_16 :: string where
  \<open>refsPage_16 = lines [
    '';">'',
    ''                            <svg class="w-5 h-5 mr-2" fill="none" stroke="currentColor" viewBox="0 0 24 24">'',
    ''                                <path stroke-linecap="round" stroke-linejoin="round" stroke-width="2" d="M4 16v1a3 3 0 003 3h10a3 3 0 003-3v-1m-4-4l-4 4m0 0l-4-4m4 4V4"></path>'',
    ''                            </svg>'',
    ''                            Download References PDF'',
    ''                        </button>'',
    ''                    </a>'',
    ''                '']\<close>

definition refsPage_17 :: string where
  \<open>refsPage_17 = lines [
    '''',
    ''            </div>'',
    ''        </div>'',
    ''    </section>'',
    '''',
    ''    <!-- References Section -->'',
    ''    <section class="py-20 bg-gray-50">'',
    ''        <div class="max-w-7xl mx-auto px-4 sm:px-6 lg:px-8">'',
    ''            <div class="grid md:grid-cols-2 lg:grid-cols-3 gap-8">'',
    ''                '']\<close>

definition refsPage_18 :: string where
  \<open>refsPage_18 = lines [
    '''',
    ''                        <div class="bg-white rounded-lg border-0 shadow-lg hover:shadow-xl transition-shadow duration-300">'',
    ''                            <div class="p-8">'',
    ''                                <div class="text-center mb-6">'',
    ''                                    <div class="w-16 h-16 rounded-full flex items-center justify-center mx-auto mb-4" style="background-color: '']\<close>

definition refsPage_19 :: string where
  \<open>refsPage_19 = lines [
    '';">'',
    ''                                        <span class="text-white font-bold text-xl">'']\<close>

definition refsPage_20 :: string where
  \<open>refsPage_20 = lines [
    ''</span>'',
    ''                                    </div>'',
    ''                                    <h3 class="text-xl font-bold mb-2" style="color: '']\<close>

definition refsPage_21 :: string where
  \<open>refsPage_21 = '';">''\<close>

definition refsPage_22 :: string where
  \<open>refsPage_22 = lines [
    ''</h3>'',
    ''                                    <p class="font-semibold mb-1" style="color: '']\<close>

definition refsPage_23 :: string where
  \<open>refsPage_23 = '';">''\<close>

definition refsPage_24 :: string where
  \<open>refsPage_24 = lines [
    ''</p>'',
    ''                                    <p class="text-gray-600 font-medium mb-2">'']\<close>

definition refsPage_25 :: string where
  \<open>refsPage_25 = lines [
    ''</p>'',
    ''                                    <p class="text-sm text-gray-500 italic">'']\<close>

definition refsPage_26 :: string where
  \<open>refsPage_26 = lines [
    ''</p>'',
    ''                                </div>'',
    '''',
    ''                                <p class="text-gray-700 text-sm leading-relaxed mb-6">'']\<close>

definition refsPage_27 :: string where
  \<open>refsPage_27 = lines [
    ''</p>'',
    '''',
    ''                                <div class="space-y-3">'',
    ''                                    <div class="flex items-center text-sm">'',
    ''                                        <svg class="w-4 h-4 mr-3" style="color: '']\<close>

definition refsPage_28 :: string where
  \<open>refsPage_28 = lines [
    '';" fill="none" stroke="currentColor" viewBox="0 0 24 24">'',
    ''                                            <path stroke-linecap="round" stroke-linejoin="round" stroke-width="2" d="M3 8l7.89 5.26a2 2 0 002.22 0L21 8M5 19h14a2 2 0 002-2V7a2 2 0 00-2-2H5a2 2 0 00-2 2v10a2 2 0 002 2z"></path>'',
    ''                                        </svg>'',
    ''                                        <a href="mailto:'']\<close>

definition refsPage_29 :: string where
  \<open>refsPage_29 = lines [
    ''" '',
    ''                                           class="text-gray-700 transition-colors"'',
    (''                                           onmouseenter="this.style.color='' @ [CHR 0x27])]\<close>

definition refsPage_30 :: string where
  \<open>refsPage_30 = lines [
    ''\'"'',
    ''                                           onmouseleave="this.style.color=\'#374151\'">'',
    ''                                            '']\<close>

definition refsPage_31 :: string where
  \<open>refsPage_31 = lines [
    '''',
    ''                                        </a>'',
    ''                                    </div>'',
    ''                                    '']\<close>

definition refsPage_32 :: string where
  \<open>refsPage_32 = lines [
    '''',
    ''                                        <div class="flex items-center text-sm">'',
    ''                                            <svg class="w-4 h-4 mr-3" style="color: '']\<close>

definition refsPage_33 :: string where
  \<open>refsPage_33 = lines [
    '';" fill="none" stroke="currentColor" viewBox="0 0 24 24">'',
    ''                                                <path stroke-linecap="round" stroke-linejoin="round" stroke-width="2" d="M3 5a2 2 0 012-2h3.28a1 1 0 01.948.684l1.498 4.493a1 1 0 01-.502 1.21l-2.257 1.13a11.042 11.042 0 005.516 5.516l1.13-2.257a1 1 0 011.21-.502l4.493 1.498a1 1 0 01.684.949V19a2 2 0 01-2 2h-1C9.716 21 3 14.284 3 6V5z"></path>'',
    ''                                            </svg>'',
    ''                                            <a href="tel:'']\<close>

definition refsPage_34 :: string where
  \<open>refsPage_34 = lines [
    ''" '',
    ''                                               class="text-gray-700 transition-colors"'',
    (''                                               onmouseenter="this.style.color='' @ [CHR 0x27])]\<close>

definition refsPage_35 :: string where
  \<open>refsPage_35 = lines [
    ''\'"'',
    ''                                               onmouseleave="this.style.color=\'#374151\'">'',
    ''                                                '']\<close>

definition refsPage_36 :: string where
  \<open>refsPage_36 = lines [
    '''',
    ''                                            </a>'',
    ''                                        </div>'',
    ''                                    '']\<close>

definition refsPage_37 :: string where
  \<open>refsPage_37 = lines [
    '''',
    ''                                    '']\<close>

definition refsPage_38 :: string where
  \<open>refsPage_38 = lines [
    '''',
    ''                                        <div class="flex items-center text-sm">'',
    ''                                            <svg class="w-4 h-4 mr-3" style="color: '']\<close>

definition refsPage_39 :: string where
  \<open>refsPage_39 = lines [
    '';" fill="none" stroke="currentColor" viewBox="0 0 24 24">'',
    ''                                                <path stroke-linecap="round" stroke-linejoin="round" stroke-width="2" d="M16 8a6 6 0 016 6v7h-4v-7a2 2 0 00-2-2 2 2 0 00-2 2v7h-4v-7a6 6 0 016-6zM2 9h4v12H2z"></path>'',
    ''                                                <circle cx="4" cy="4" r="2" stroke-linecap="round" stroke-linejoin="round" stroke-width="2"></circle>'',
    ''                                            </svg>'',
    ''                                            <a href="https://'']\<close>

definition refsPage_40 :: string where
  \<open>refsPage_40 = lines [
    ''" '',
    ''                                               target="_blank" '',
    ''                                               rel="noopener noreferrer"'',
    ''                                               class="text-gray-700 transition-colors"'',
    (''                                               onmouseenter="this.style.color='' @ [CHR 0x27])]\<close>

definition refsPage_41 :: string where
  \<open>refsPage_41 = lines [
    ''\'"'',
    ''                                               onmouseleave="this.style.color=\'#374151\'">'',
    ''                                                '']\<close>

definition refsPage_42 :: string where
  \<open>refsPage_42 = lines [
    '''',
    ''                                            </a>'',
    ''                                        </div>'',
    ''                                    '']\<close>

definition refsPage_43 :: string where
  \<open>refsPage_43 = lines [
    '''',
    ''                                </div>'',
    ''                            </div>'',
    ''                        </div>'',
    ''                    '']\<close>

definition refsPage_44 :: string where
  \<open>refsPage_44 = lines [
    '''',
    ''            </div>'',
    '''',
    ''            <div class="text-center mt-16">'',
    ''                <p class="text-gray-600 mb-6 max-w-2xl mx-auto">'',
    ''                    All references have given permission to be contacted regarding my professional qualifications. Please feel free to reach out to them directly or contact me if you need additional references.'',
    ''                </p>'',
    ''                <a href="index.html#contact">'',
    ''                    <button class="inline-flex items-center justify-center text-white h-11 px-8 rounded-lg transition-all duration-300 hover:scale-105"'',
    ''                            style="background-color: '']\<close>

definition refsPage_45 :: string where
  \<open>refsPage_45 = lines [
    '';"'',
    (''                            onmouseenter="this.style.backgroundColor='' @ [CHR 0x27])]\<close>

definition refsPage_46 :: string where
  \<open>refsPage_46 = lines [
    ''\'"'',
    (''                            onmouseleave="this.style.backgroundColor='' @ [CHR 0x27])]\<close>

definition refsPage_47 :: string where
  \<open>refsPage_47 = lines [
    ''\'">'',
    ''                        Contact Me'',
    ''                    </button>'',
    ''                </a>'',
    ''            </div>'',
    ''        </div>'',
    ''    </section>'',
    '''',
    ''    <!-- Footer -->'',
    ''    <footer class="text-white py-12" style="background-color: '']\<close>

definition refsPage_48 :: string where
  \<open>refsPage_48 = lines [
    '';">'',
    ''        <div class="max-w-7xl mx-auto px-4 sm:px-6 lg:px-8">'',
    ''            <div class="text-center">'',
    ''                <h3 class="text-2xl font-bold mb-4">'']\<close>

definition refsPage_49 :: string where
  \<open>refsPage_49 = lines [
    ''</h3>'',
    ''                <p class="mb-6" style="color: '']\<close>

definition refsPage_50 :: string where
  \<open>refsPage_50 = '';">''\<close>

definition refsPage_51 :: string where
  \<open>refsPage_51 = lines [
    ''</p>'',
    ''                <div class="flex justify-center space-x-6">'',
    ''                    '']\<close>

definition refsPage_52 :: string where
  \<open>refsPage_52 = lines [
    '''',
    ''                        <a href="mailto:'']\<close>

definition refsPage_53 :: string where
  \<open>refsPage_53 = lines [
    ''" '',
    ''                           class="transition-colors"'',
    ''                           style="color: '']\<close>

definition refsPage_54 :: string where
  \<open>refsPage_54 = lines [
    '';"'',
    ''                           onmouseenter="this.style.color=\'white\'"'',
    (''                           onmouseleave="this.style.color='' @ [CHR 0x27])]\<close>

definition refsPage_55 :: string where
  \<open>refsPage_55 = lines [
    ''\'">'',
    ''                            <svg class="w-6 h-6" fill="none" stroke="currentColor" viewBox="0 0 24 24">'',
    ''                                <path stroke-linecap="round" stroke-linejoin="round" stroke-width="2" d="M3 8l7.89 5.26a2 2 0 002.22 0L21 8M5 19h14a2 2 0 002-2V7a2 2 0 00-2-2H5a2 2 0 00-2 2v10a2 2 0 002 2z"></path>'',
    ''                            </svg>'',
    ''                        </a>'',
    ''                    '']\<close>

definition refsPage_56 :: string where
  \<open>refsPage_56 = lines [
    '''',
    ''                    '']\<close>

definition refsPage_57 :: string where
  \<open>refsPage_57 = lines [
    '''',
    ''                        <a href="tel:'']\<close>

definition refsPage_58 :: string where
  \<open>refsPage_58 = lines [
    ''" '',
    ''                           class="transition-colors"'',
    ''                           style="color: '']\<close>

definition refsPage_59 :: string where
  \<open>refsPage_59 = lines [
    '';"'',
    ''                           onmouseenter="this.style.color=\'white\'"'',
    (''                           onmouseleave="this.style.color='' @ [CHR 0x27])]\<close>

definition refsPage_60 :: string where
  \<open>refsPage_60 = lines [
    ''\'">'',
    ''                            <svg class="w-6 h-6" fill="none" stroke="currentColor" viewBox="0 0 24 24">'',
    ''                                <path stroke-linecap="round" stroke-linejoin="round" stroke-width="2" d="M3 5a2 2 0 012-2h3.28a1 1 0 01.948.684l1.498 4.493a1 1 0 01-.502 1.21l-2.257 1.13a11.042 11.042 0 005.516 5.516l1.13-2.257a1 1 0 011.21-.502l4.493 1.498a1 1 0 01.684.949V19a2 2 0 01-2 2h-1C9.716 21 3 14.284 3 6V5z"></path>'',
    ''                            </svg>'',
    ''                        </a>'',
    ''                    '']\<close>

definition refsPage_61 :: string where
  \<open>refsPage_61 = lines [
    '''',
    ''                    '']\<close>

definition refsPage_62 :: string where
  \<open>refsPage_62 = lines [
    '''',
    ''                        <a href="https://'']\<close>

definition refsPage_63 :: string where
  \<open>refsPage_63 = lines [
    ''" '',
    ''                           target="_blank" '',
    ''                           rel="noopener noreferrer"'',
    ''                           class="transition-colors"'',
    ''                           style="color: '']\<close>

definition refsPage_64 :: string where
  \<open>refsPage_64 = lines [
    '';"'',
    ''                           onmouseenter="this.style.color=\'white\'"'',
    (''                           onmouseleave="this.style.color='' @ [CHR 0x27])]\<close>

definition refsPage_65 :: string where
  \<open>refsPage_65 = lines [
    ''\'">'',
    ''                            <svg class="w-6 h-6" fill="none" stroke="currentColor" viewBox="0 0 24 24">'',
    ''                                <path stroke-linecap="round" stroke-linejoin="round" stroke-width="2" d="M16 8a6 6 0 016 6v7h-4v-7a2 2 0 00-2-2 2 2 0 00-2 2v7h-4v-7a6 6 0 016-6zM2 9h4v12H2z"></path>'',
    ''                                <circle cx="4" cy="4" r="2" stroke-linecap="round" stroke-linejoin="round" stroke-width="2"></circle>'',
    ''                            </svg>'',
    ''                        </a>'',
    ''                    '']\<close>

definition refsPage_66 :: string where
  \<open>refsPage_66 = lines [
    '''',
    ''                </div>'',
    ''            </div>'',
    ''        </div>'',
    ''    </footer>'',
    ''</body>'',
    ''</html>'']\<close>

definition projectsPage_1 :: string where
  \<open>projectsPage_1 = lines [
    ''<!DOCTYPE html>'',
    ''<html lang="en">'',
    ''<head>'',
    ''    <meta charset="UTF-8">'',
    ''    <meta name="viewport" content="width=device-width, initial-scale=1.0">'',
    ''    <title>Projects - '']\<close>

definition projectsPage_2 :: string where
  \<open>projectsPage_2 = lines [
    ''</title>'',
    ''    <script src="https://cdn.tailwindcss.com"></script>'',
    ''    <style>'',
    ''        body { '',
    ''            font-family: -apple-system, BlinkMacSystemFont, \'Segoe UI\', \'Roboto\', \'Oxygen\', \'Ubuntu\', \'Cantarell\', \'Fira Sans\', \'Droid Sans\', \'Helvetica Neue\', sans-serif;'',
    ''            -webkit-font-smoothing: antialiased;'',
    ''            -moz-osx-font-smoothing: grayscale;'',
    ''        }'',
    ''    </style>'',
    ''</head>'',
    ''<body>'',
    ''    <!-- Navigation -->'',
    ''    <nav class="fixed top-0 w-full bg-white/90 backdrop-blur-sm border-b border-gray-100 z-50">'',
    ''        <div class="max-w-7xl mx-auto px-4 sm:px-6 lg:px-8">'',
    ''            <div class="flex justify-between items-center h-16">'',
    ''                <a href="index.html" '',
    ''                   class="font-bold text-xl transition-colors cursor-pointer"'',
    ''                   style="color: '']\<close>

definition projectsPage_3 :: string where
  \<open>projectsPage_3 = lines [
    '';"'',
    (''                   onmouseenter="this.style.color='' @ [CHR 0x27])]\<close>

definition projectsPage_4 :: string where
  \<open>projectsPage_4 = lines [
    ''\'"'',
    (''                   onmouseleave="this.style.color='' @ [CHR 0x27])]\<close>

definition projectsPage_5 :: string where
  \<open>projectsPage_5 = lines [
    ''\'">'',
    ''                    '']\<close>

definition projectsPage_6 :: string where
  \<open>projectsPage_6 = lines [
    '''',
    ''                </a>'',
    ''                <div class="hidden md:flex space-x-8">'',
    (''                    <a href="index.html#about" class="text-gray-700 transition-colors" onmouseenter="this.style.color='' @ [CHR 0x27])]\<close>

definition projectsPage_7 :: string where
  \<open>projectsPage_7 = lines [
    ''\'" onmouseleave="this.style.color=\'#374151\'">About</a>'',
    ''                    <span class="font-semibold" style="color: '']\<close>

definition projectsPage_8 :: string where
  \<open>projectsPage_8 = lines [
    '';">Projects</span>'',
    (''                    <a href="index.html#timeline" class="text-gray-700 transition-colors" onmouseenter="this.style.color='' @ [CHR 0x27])]\<close>

definition projectsPage_9 :: string where
  \<open>projectsPage_9 = lines [
    ''\'" onmouseleave="this.style.color=\'#374151\'">Resume</a>'',
    (''                    <a href="references.html" class="text-gray-700 transition-colors" onmouseenter="this.style.color='' @ [CHR 0x27])]\<close>

definition projectsPage_10 :: string where
  \<open>projectsPage_10 = lines [
    ''\'" onmouseleave="this.style.color=\'#374151\'">References</a>'',
    (''                    <a href="index.html#contact" class="text-gray-700 transition-colors" onmouseenter="this.style.color='' @ [CHR 0x27])]\<close>

definition projectsPage_11 :: string where
  \<open>projectsPage_11 = lines [
    ''\'" onmouseleave="this.style.color=\'#374151\'">Contact</a>'',
    ''                </div>'',
    ''            </div>'',
    ''        </div>'',
    ''    </nav>'',
    '''',
    ''    <!-- Header Section -->'',
    ''    <section class="pt-24 pb-12 text-white" style="background: linear-gradient(135deg, '']\<close>

definition projectsPage_12 :: string where
  \<open>projectsPage_12 = '', ''\<close>

definition projectsPage_13 :: string where
  \<open>projectsPage_13 = lines [
    '');">'',
    ''        <div class="max-w-7xl mx-auto px-4 sm:px-6 lg:px-8">'',
    ''            <div class="text-center">'',
    ''                <a href="index.html" class="inline-flex items-center text-blue-200 hover:text-white transition-colors mb-6">'',
    ''                    <svg class="w-5 h-5 mr-2" fill="none" stroke="currentColor" viewBox="0 0 24 24">'',
    ''                        <path stroke-linecap="round" stroke-linejoin="round" stroke-width="2" d="M19 12H5M12 19l-7-7 7-7"></path>'',
    ''                    </svg>'',
    ''                    Back to Portfolio'',
    ''                </a>'',
    ''                <h1 class="text-4xl md:text-5xl font-bold mb-6">My Projects</h1>'',
    ''                <p class="text-lg md:text-xl text-blue-100 max-w-3xl mx-auto mb-8">'',
    ''                    '']\<close>

definition projectsPage_14 :: string where
  \<open>projectsPage_14 = lines [
    '''',
    ''                </p>'',
    ''            </div>'',
    ''        </div>'',
    ''    </section>'',
    '''',
    ''    <!-- Projects Section -->'',
    ''    <section class="py-20 bg-gray-50">'',
    ''        <div class="max-w-7xl mx-auto px-4 sm:px-6 lg:px-8">'',
    ''            <div class="grid md:grid-cols-2 lg:grid-cols-3 gap-8">'',
    ''                '']\<close>

definition projectsPage_15 :: string where
  \<open>projectsPage_15 = lines [
    '''',
    ''                    <div class="bg-white rounded-lg border-0 shadow-lg hover:shadow-xl transition-shadow duration-300">'',
    ''                        <div class="p-8">'',
    ''                            <h3 class="text-xl font-bold mb-2" style="color: '']\<close>

definition projectsPage_16 :: string where
  \<open>projectsPage_16 = '';">''\<close>

definition projectsPage_17 :: string where
  \<open>projectsPage_17 = lines [
    ''</h3>'',
    ''                            <p class="text-gray-600 mb-4">'']\<close>

definition projectsPage_18 :: string where
  \<open>projectsPage_18 = lines [
    ''</p>'',
    ''                            '']\<close>

definition projectsPage_19 :: string where
  \<open>projectsPage_19 = lines [
    '''',
    ''                                <div class="flex flex-wrap gap-2 mb-4">'',
    ''                                    '']\<close>

definition projectsPage_20 :: string where
  \<open>projectsPage_20 = ''<span class="px-2 py-1 text-xs rounded-full" style="background-color: ''\<close>

definition projectsPage_21 :: string where
  \<open>projectsPage_21 = ''; color: ''\<close>

definition projectsPage_22 :: string where
  \<open>projectsPage_22 = '';">''\<close>

definition projectsPage_23 :: string where
  \<open>projectsPage_23 = ''</span>''\<close>

definition projectsPage_24 :: string where
  \<open>projectsPage_24 = lines [
    '''',
    ''                                </div>'',
    ''                            '']\<close>

definition projectsPage_25 :: string where
  \<open>projectsPage_25 = lines [
    '''',
    ''                            <div class="flex gap-2">'',
    ''                                '']\<close>

definition projectsPage_26 :: string where
  \<open>projectsPage_26 = ''<a href="''\<close>

definition projectsPage_27 :: string where
  \<open>projectsPage_27 = ''" target="_blank" class="px-4 py-2 text-sm rounded-lg" style="background-color: ''\<close>

definition projectsPage_28 :: string where
  \<open>projectsPage_28 = ''; color: white;">GitHub</a>''\<close>

definition projectsPage_29 :: string where
  \<open>projectsPage_29 = lines [
    '''',
    ''                                '']\<close>

definition projectsPage_30 :: string where
  \<open>projectsPage_30 = ''<a href="''\<close>

definition projectsPage_31 :: string where
  \<open>projectsPage_31 = ''" target="_blank" class="px-4 py-2 text-sm rounded-lg border" style="border-color: ''\<close>

definition projectsPage_32 :: string where
  \<open>projectsPage_32 = ''; color: ''\<close>

definition projectsPage_33 :: string where
  \<open>projectsPage_33 = '';">Live Demo</a>''\<close>

definition projectsPage_34 :: string where
  \<open>projectsPage_34 = lines [
    '''',
    ''                            </div>'',
    ''                        </div>'',
    ''                    </div>'',
    ''                '']\<close>

definition projectsPage_35 :: string where
  \<open>projectsPage_35 = lines [
    '''',
    ''            </div>'',
    ''        </div>'',
    ''    </section>'',
    '''',
    ''    <!-- Footer -->'',
    ''    <footer class="text-white py-12" style="background-color: '']\<close>

definition projectsPage_36 :: string where
  \<open>projectsPage_36 = lines [
    '';">'',
    ''        <div class="max-w-7xl mx-auto px-4 sm:px-6 lg:px-8">'',
    ''            <div class="text-center">'',
    ''                <h3 class="text-2xl font-bold mb-4">'']\<close>

definition projectsPage_37 :: string where
  \<open>projectsPage_37 = lines [
    ''</h3>'',
    ''                <p class="mb-6" style="color: '']\<close>

definition projectsPage_38 :: string where
  \<open>projectsPage_38 = '';">''\<close>

definition projectsPage_39 :: string where
  \<open>projectsPage_39 = lines [
    ''</p>'',
    ''            </div>'',
    ''        </div>'',
    ''    </footer>'',
    ''</body>'',
    ''</html>'']\<close>


section \<open>Section renderers\<close>

definition dynamicCSS :: "portfolioData \<Rightarrow> string" where
  \<open>dynamicCSS portfolioData =
     (css_1 @
      primaryColor portfolioData @
      css_2 @
      secondaryColor portfolioData @
      css_3 @
      accentColor portfolioData @
      css_4 @
      backgroundColor portfolioData @
      css_5 @
      textColor portfolioData @
      css_6)\<close>

definition generateHeroSection :: "portfolioData \<Rightarrow> string" where
  \<open>generateHeroSection portfolioData =
     (hero_1 @
      primaryColor portfolioData @
      hero_2 @
      secondaryColor portfolioData @
      hero_3 @
      (if present (pd_headshotImage portfolioData) then (hero_4 @
          escapeHtml (js (pd_headshotImage portfolioData)) @
          hero_5 @
          escapeHtml (js (pd_name portfolioData)) @
          hero_6) else (hero_7)) @
      hero_8 @
      escapeHtml (JStr (orElse (pd_name portfolioData) ''Your Name'')) @
      hero_9 @
      accentColor portfolioData @
      hero_10 @
      escapeHtml (JStr (orElse (pd_title portfolioData) ''Your Professional Title'')) @
      hero_11 @
      accentColor portfolioData @
      hero_12 @
      escapeHtml (JStr (orElse (pd_bio portfolioData) ''Add your professional bio here to introduce yourself and highlight your expertise.'')) @
      hero_13 @
      secondaryColor portfolioData @
      hero_14 @
      primaryColor portfolioData @
      hero_15 @
      secondaryColor portfolioData @
      hero_16)\<close>

subsection \<open>Skills\<close>

text \<open>\<^verbatim>\<open>Object.values(portfolioData.skills.skills).flat()\<close>\<close>

definition allSkillsOf :: "(string \<times> string list) list \<Rightarrow> string list" where
  \<open>allSkillsOf skillsMap = concat (map snd skillsMap)\<close>

text \<open>The badge of one skill, the callback of \<^verbatim>\<open>displaySkills.map\<close>.\<close>

definition carouselBadge :: "portfolioData \<Rightarrow> string \<Rightarrow> string" where
  \<open>carouselBadge portfolioData skill =
     (carousel_3 @
          secondaryColor portfolioData @
          carousel_4 @
          secondaryColor portfolioData @
          carousel_5 @
          escapeHtml (JStr skill) @
          carousel_6)\<close>

definition generateSkillsCarousel :: "portfolioData \<Rightarrow> string" where
  \<open>generateSkillsCarousel portfolioData =
     (case pd_skills portfolioData of
        None \<Rightarrow> []
      | Some sk \<Rightarrow>
         (case sk_skills sk of
            None \<Rightarrow> []
          | Some skillsMap \<Rightarrow>
             (let allSkills = allSkillsOf skillsMap in
              if length allSkills = 0 then []
              else
                (let displaySkills = (allSkills @ allSkills) @ allSkills in
                 (carousel_1 @
      primaryColor portfolioData @
      carousel_2 @
      concat (map (carouselBadge portfolioData) displaySkills) @
      carousel_7)))))\<close>

definition defaultIcons :: "string list" where
  \<open>defaultIcons = [defaultIcon0, defaultIcon1, defaultIcon2, defaultIcon3, defaultIcon4]\<close>

definition getCategoryIcon :: "string option \<Rightarrow> string option \<Rightarrow> nat \<Rightarrow> string" where
  \<open>getCategoryIcon iconName categoryName categoryIndex =
     (let identifier = toLowerCase (orElse iconName (orElse categoryName [])) in
      (if identifier = ''star'' then icon_star
      else if identifier = ''check'' \<or> identifier = ''testing'' then icon_check
      else if identifier = ''people'' \<or> identifier = ''professional'' \<or> identifier = ''professional skills'' then icon_people
      else if identifier = ''code'' \<or> identifier = ''technical'' \<or> identifier = ''technical skills'' then icon_code
      else if identifier = ''tool'' \<or> identifier = ''engineering'' \<or> identifier = ''engineering expertise'' \<or> identifier = ''devops'' then icon_tool
      else if identifier = ''design'' \<or> identifier = ''creative'' then icon_design
      else if identifier = ''language'' then icon_language
      else if identifier = ''heart'' \<or> identifier = ''soft'' \<or> identifier = ''healthcare'' \<or> identifier = ''volunteer'' then icon_heart
      else if identifier = ''certification'' then icon_certification
      else if identifier = ''framework'' then icon_framework
      else if identifier = ''database'' then icon_database
      else if identifier = ''cloud'' then icon_cloud
      else if identifier = ''mobile'' then icon_mobile
      else if identifier = ''management'' \<or> identifier = ''analytics'' then icon_management
      else if identifier = ''research'' \<or> identifier = ''ai'' then icon_research
      else if identifier = ''communication'' then icon_communication
      else if identifier = ''leadership'' \<or> identifier = ''startup'' then icon_leadership
      else if identifier = ''security'' then icon_security
      else if identifier = ''blockchain'' then icon_blockchain
      else if identifier = ''gaming'' then icon_gaming
      else if identifier = ''finance'' then icon_finance
      else if identifier = ''education'' then icon_education
      else if identifier = ''marketing'' then icon_marketing
      else if identifier = ''sales'' then icon_sales
      else if identifier = ''consulting'' then icon_consulting
      else defaultIcons ! (categoryIndex mod 5)))\<close>

text \<open>\<^verbatim>\<open>portfolioData.skills.skills?.[category.id] || []\<close>; an absent id is the key
  \<^verbatim>\<open>"undefined"\<close>. The card template reads the same list without \<^verbatim>\<open>?.\<close>, only for a
  category that passed the filter, where the mapping exists.\<close>

definition skillsOf :: "portfolioData \<Rightarrow> category \<Rightarrow> string list" where
  \<open>skillsOf portfolioData category =
     (case pd_skills portfolioData of
        None \<Rightarrow> []
      | Some sk \<Rightarrow>
         (case sk_skills sk of
            None \<Rightarrow> []
          | Some skillsMap \<Rightarrow>
             (case map_of skillsMap (case cat_id category of None \<Rightarrow> ''undefined'' | Some k \<Rightarrow> k) of
                None \<Rightarrow> []
              | Some skills \<Rightarrow> skills)))\<close>

text \<open>\<^verbatim>\<open>xs.slice(i, j)\<close> for \<open>0 \<le> i \<le> j\<close>.\<close>

definition slice :: "nat \<Rightarrow> nat \<Rightarrow> 'a list \<Rightarrow> 'a list" where
  \<open>slice i j xs = take (j - i) (drop i xs)\<close>

text \<open>The card of one category, the callback of \<^verbatim>\<open>rowCategories.map\<close>;
  \<open>globalIndex\<close> is \<open>i + idx\<close>.\<close>

definition skillCard :: "portfolioData \<Rightarrow> bool \<Rightarrow> nat \<Rightarrow> category \<Rightarrow> string" where
  \<open>skillCard portfolioData isPartialRow globalIndex category =
     (let skills = skillsOf portfolioData category in
      (cardsRow_3 @
          (if isPartialRow then ''w-80'' else ''w-full'') @
          cardsRow_4 @
          primaryColor portfolioData @
          cardsRow_5 @
          getCategoryIcon (cat_icon category) (cat_name category) globalIndex @
          cardsRow_6 @
          primaryColor portfolioData @
          cardsRow_7 @
          escapeHtml (js (cat_name category)) @
          cardsRow_8 @
          concat (map (\<lambda>skill. (cardsRow_9 @
              secondaryColor portfolioData @
              cardsRow_10 @
              escapeHtml (JStr skill) @
              cardsRow_11)) skills) @
          cardsRow_12))\<close>

text \<open>The template of one row of category cards, from the loop's \<open>i\<close>,
  \<open>isPartialRow\<close> and \<open>rowCategories\<close>.\<close>

definition skillsCardRow :: "portfolioData \<Rightarrow> nat \<Rightarrow> bool \<Rightarrow> category list \<Rightarrow> string" where
  \<open>skillsCardRow portfolioData i isPartialRow rowCategories =
     (cardsRow_1 @
      (if isPartialRow then ''flex justify-center gap-8 mb-8'' else ''grid grid-cols-1 md:grid-cols-2 lg:grid-cols-3 gap-8 mb-8'') @
      cardsRow_2 @
      concat (map (\<lambda>(idx, category). skillCard portfolioData isPartialRow (i + idx) category) (enumerate 0 rowCategories)) @
      cardsRow_13)\<close>

text \<open>\<^verbatim>\<open>for (let i = 0; i < categoriesWithSkills.length; i += 3)\<close>, from \<open>i\<close> on.\<close>

function skillsCardRows :: "portfolioData \<Rightarrow> category list \<Rightarrow> nat \<Rightarrow> string list" where
  \<open>skillsCardRows portfolioData categoriesWithSkills i =
     (if i < length categoriesWithSkills then
        (let rowCategories = slice i (i + 3) categoriesWithSkills;
             isPartialRow = length rowCategories < 3
         in skillsCardRow portfolioData i isPartialRow rowCategories
            # skillsCardRows portfolioData categoriesWithSkills (i + 3))
      else [])\<close>
  by pat_completeness auto
termination
  by (relation "measure (\<lambda>(portfolioData, categoriesWithSkills, i). length categoriesWithSkills - i)") auto

declare skillsCardRows.simps [simp del]

definition categoriesWithSkills :: "portfolioData \<Rightarrow> category list \<Rightarrow> category list" where
  \<open>categoriesWithSkills portfolioData categories =
     filter (\<lambda>category. length (skillsOf portfolioData category) > 0) categories\<close>

definition generateSkillsCards :: "portfolioData \<Rightarrow> string" where
  \<open>generateSkillsCards portfolioData =
     (case pd_skills portfolioData of
        None \<Rightarrow> []
      | Some sk \<Rightarrow>
         (case sk_categories sk of
            None \<Rightarrow> []
          | Some categories \<Rightarrow>
             (let cws = categoriesWithSkills portfolioData categories in
              if length cws = 0 then (cardsEmpty)
              else
                (let rows = skillsCardRows portfolioData cws 0 in
                 (cardsWrap_1 @
      join [CHR 0x0A] rows @
      cardsWrap_2)))))\<close>

subsection \<open>About\<close>

definition hasSkills :: "portfolioData \<Rightarrow> bool" where
  \<open>hasSkills portfolioData =
     (case pd_skills portfolioData of
        None \<Rightarrow> False
      | Some sk \<Rightarrow> nonEmpty (sk_categories sk) \<or> nonEmpty (sk_skills sk))\<close>

text \<open>What the about section interpolates under its \<^verbatim>\<open><!-- Skills Section -->\<close>
  comment: \<^verbatim>\<open>hasSkills ? (skillsDisplayMode === 'rotating' ? generateSkillsCarousel() :
  generateSkillsCards()) : '<!-- No skills data -->'\<close>.\<close>

definition skillsSubsection :: "portfolioData \<Rightarrow> string" where
  \<open>skillsSubsection portfolioData =
     (let skillsDisplayMode = orElse (pd_skillsDisplayMode portfolioData) ''card'' in
      if hasSkills portfolioData then
        (if skillsDisplayMode = ''rotating'' then generateSkillsCarousel portfolioData
         else generateSkillsCards portfolioData)
      else ''<!-- No skills data -->'')\<close>

text \<open>One paragraph of the about text, the callback of \<^verbatim>\<open>paragraphs.map\<close>.\<close>

definition aboutParagraph :: "string \<Rightarrow> string" where
  \<open>aboutParagraph paragraph =
     (about_3 @
          escapeHtml (JStr paragraph) @
          about_4)\<close>

definition generateAboutSection :: "portfolioData \<Rightarrow> string" where
  \<open>generateAboutSection portfolioData =
     (if ''about'' \<notin> set (sectionOrder portfolioData) then []
      else
        (let aboutText = orElse (pd_aboutText portfolioData)
               ''Add your about text here to tell your story and showcase your personality.'';
             paragraphs = split [CHR 0x0A, CHR 0x0A] aboutText
         in (about_1 @
      primaryColor portfolioData @
      about_2 @
      concat (map aboutParagraph paragraphs) @
      about_5 @
      skillsSubsection portfolioData @
      about_6)))\<close>

subsection \<open>Projects\<close>

definition projectsRow :: "portfolioData \<Rightarrow> bool \<Rightarrow> project list \<Rightarrow> string" where
  \<open>projectsRow portfolioData isPartialRow rowProjects =
     (projectsRow_1 @
      (if isPartialRow then ''flex justify-center gap-8 mb-8'' else ''grid grid-cols-1 md:grid-cols-2 lg:grid-cols-3 gap-8 mb-8'') @
      projectsRow_2 @
      concat (map (\<lambda>project. (projectsRow_3 @
          (if isPartialRow then ''w-80'' else ''w-full'') @
          projectsRow_4 @
          (if proj_imageBg project = Some ''white'' then ''bg-white'' else if proj_imageBg project = Some ''black'' then ''bg-black'' else ''bg-gray-100'') @
          projectsRow_5 @
          (if present (proj_image project) then (projectsRow_6 @
              escapeHtml (js (proj_image project)) @
              projectsRow_7 @
              escapeHtml (js (proj_title project)) @
              projectsRow_8 @
              orElse (proj_imageStyle project) ''cover'' @
              projectsRow_9) else (projectsRow_10)) @
          projectsRow_11 @
          escapeHtml (js (proj_title project)) @
          projectsRow_12 @
          escapeHtml (JStr (orElse (proj_summary project) (orElse (proj_description project) ''''))) @
          projectsRow_13 @
          (case proj_skills project of None \<Rightarrow> [] | Some skills \<Rightarrow> if length skills > 0 then (projectsRow_14 @
              concat (map (\<lambda>skill. (projectsRow_15 @
                  secondaryColor portfolioData @
                  projectsRow_16 @
                  secondaryColor portfolioData @
                  projectsRow_17 @
                  escapeHtml (JStr skill) @
                  projectsRow_18)) (take 3 skills)) @
              projectsRow_19 @
              (if length skills > 3 then (projectsRow_20 @
                  showNat (length skills - 3) @
                  projectsRow_21) else []) @
              projectsRow_22) else []) @
          projectsRow_23)) rowProjects) @
      projectsRow_24)\<close>

function projectsRows :: "portfolioData \<Rightarrow> project list \<Rightarrow> nat \<Rightarrow> string list" where
  \<open>projectsRows portfolioData projects i =
     (if i < length projects then
        (let rowProjects = slice i (i + 3) projects;
             isPartialRow = length rowProjects < 3
         in projectsRow portfolioData isPartialRow rowProjects
            # projectsRows portfolioData projects (i + 3))
      else [])\<close>
  by pat_completeness auto
termination
  by (relation "measure (\<lambda>(portfolioData, projects, i). length projects - i)") auto

declare projectsRows.simps [simp del]

definition generateProjectsSection :: "portfolioData \<Rightarrow> string" where
  \<open>generateProjectsSection portfolioData =
     (if ''projects'' \<notin> set (sectionOrder portfolioData) then []
      else
        (case pd_projects portfolioData of
           None \<Rightarrow> []
         | Some projects \<Rightarrow>
            if length projects = 0 then []
            else
              (let rows = projectsRows portfolioData projects 0 in
               (projects_1 @
      primaryColor portfolioData @
      projects_2 @
      escapeHtml (JStr (orElse (pd_projectsDescription portfolioData) ''Explore some of my recent work and personal projects that showcase my skills and passion for development.'')) @
      projects_3 @
      join [CHR 0x0A] rows @
      projects_4 @
      primaryColor portfolioData @
      projects_5))))\<close>

subsection \<open>Timeline\<close>

text \<open>\<^verbatim>\<open>[...new Set(xs)]\<close>: the distinct elements in the order of their first
  occurrence.\<close>

definition distinctValues :: "'a list \<Rightarrow> 'a list" where
  \<open>distinctValues xs = foldl (\<lambda>seen x. if x \<in> set seen then seen else seen @ [x]) [] xs\<close>

text \<open>\<^verbatim>\<open>xs[i]\<close> is \<^verbatim>\<open>undefined\<close> out of range, and a template literal prints
  \<^verbatim>\<open>undefined\<close> as that word.\<close>

definition at :: "'a list \<Rightarrow> int \<Rightarrow> 'a option" where
  \<open>at xs i = (if 0 \<le> i \<and> i < int (length xs) then Some (xs ! nat i) else None)\<close>

definition interpolate :: "string option \<Rightarrow> string" where
  \<open>interpolate v = (case v of None \<Rightarrow> ''undefined'' | Some s \<Rightarrow> s)\<close>

definition typeName :: "string \<Rightarrow> string" where
  \<open>typeName type' =
     (if type' = ''education'' then ''Education''
      else if type' = ''experience'' then ''Experience''
      else if type' = ''research'' then ''Research''
      else type')\<close>

definition generateTimelineTitle :: "timelineEntry list \<Rightarrow> string" where
  \<open>generateTimelineTitle timelineData =
     (let types = distinctValues (map tl_type timelineData) in
      if length types = 0 then ''Education, Experience & Research''
      else
        (let typeOrder = [''education'', ''experience'', ''research''];
             orderedTypes = filter (\<lambda>type'. Some type' \<in> set types) typeOrder;
             typeNames = map typeName orderedTypes
         in if length typeNames = 1 then interpolate (at typeNames 0)
            else if length typeNames = 2 then
              interpolate (at typeNames 0) @ '' & '' @ interpolate (at typeNames 1)
            else
              join '', '' (butlast typeNames) @ '', & ''
                @ interpolate (at typeNames (int (length typeNames) - 1))))\<close>

definition generateTimelineSection :: "portfolioData \<Rightarrow> string" where
  \<open>generateTimelineSection portfolioData =
     (if ''timeline'' \<notin> set (sectionOrder portfolioData) then []
      else
        (case pd_timeline portfolioData of
           None \<Rightarrow> []
         | Some timeline \<Rightarrow>
            if length timeline = 0 then []
            else
              (let timelineTitle = generateTimelineTitle timeline in
               (timeline_1 @
      primaryColor portfolioData @
      timeline_2 @
      (if nonEmpty (pd_references portfolioData) then ''Download my complete resume and references or explore my educational background and professional experience below.'' else ''Download my complete resume or explore my educational background and professional experience below.'') @
      timeline_3 @
      (if present (pd_resumeUrl portfolioData) \<or> present (pd_referencesUrl portfolioData) then (timeline_4 @
          (if present (pd_resumeUrl portfolioData) then (timeline_5 @
              escapeHtml (js (pd_resumeUrl portfolioData)) @
              timeline_6 @
              secondaryColor portfolioData @
              timeline_7 @
              secondaryColor portfolioData @
              timeline_8 @
              secondaryColor portfolioData @
              timeline_9 @
              secondaryColor portfolioData @
              timeline_10) else []) @
          timeline_11 @
          (if present (pd_referencesUrl portfolioData) then (timeline_12 @
              escapeHtml (js (pd_referencesUrl portfolioData)) @
              timeline_13 @
              secondaryColor portfolioData @
              timeline_14 @
              secondaryColor portfolioData @
              timeline_15 @
              secondaryColor portfolioData @
              timeline_16 @
              secondaryColor portfolioData @
              timeline_17) else []) @
          timeline_18) else []) @
      timeline_19 @
      primaryColor portfolioData @
      timeline_20 @
      escapeHtml (JStr timelineTitle) @
      timeline_21 @
      concat (map (\<lambda>(index, item). let badgeColor = (if tl_type item = Some ''education'' then primaryColor portfolioData else if tl_type item = Some ''research'' then ''#8b5cf6'' else ''#0ea5e9'') in (timeline_22 @
          (if index mod 2 = 0 then ''flex-row'' else ''flex-row-reverse'') @
          timeline_23 @
          (if index mod 2 = 0 then ''pr-8 text-right'' else ''pl-8 text-left'') @
          timeline_24 @
          badgeColor @
          timeline_25 @
          (if tl_type item = Some ''education'' then ''Education'' else if tl_type item = Some ''research'' then ''Research'' else ''Experience'') @
          timeline_26 @
          escapeHtml (tl_year item) @
          timeline_27 @
          primaryColor portfolioData @
          timeline_28 @
          escapeHtml (js (tl_title item)) @
          timeline_29 @
          secondaryColor portfolioData @
          timeline_30 @
          escapeHtml (js (tl_organization item)) @
          timeline_31 @
          (if present (tl_description item) then (timeline_32 @
              escapeHtml (js (tl_description item)) @
              timeline_33) else []) @
          timeline_34)) (enumerate 0 timeline)) @
      timeline_35))))\<close>

subsection \<open>Contact\<close>

text \<open>The link texts of the contact section:
  \<^verbatim>\<open>(linkedin || '').replace('https://', '').replace('linkedin.com/in/', '')\<close> and
  \<^verbatim>\<open>(github || '').replace('https://', '').replace('http://', '').replace('github.com/', '')\<close>.\<close>

definition linkedinText :: "string option \<Rightarrow> string" where
  \<open>linkedinText linkedin =
     replaceFirst ''linkedin.com/in/'' [] (replaceFirst ''https://'' [] (orElse linkedin []))\<close>

definition githubText :: "string option \<Rightarrow> string" where
  \<open>githubText github =
     replaceFirst ''github.com/'' []
       (replaceFirst ''http://'' [] (replaceFirst ''https://'' [] (orElse github [])))\<close>

definition generateContactSection :: "portfolioData \<Rightarrow> string" where
  \<open>generateContactSection portfolioData =
     (if ''contact'' \<notin> set (sectionOrder portfolioData) then []
      else
        (let hasEmail = present (contactEmail portfolioData);
             hasLinkedin = present (contactLinkedin portfolioData);
             hasPhone = present (contactPhone portfolioData);
             hasGithub = present (linksGithub portfolioData)
         in (contact_1 @
      primaryColor portfolioData @
      contact_2 @
      escapeHtml (JStr (orElse (pd_contactIntro portfolioData) ''I\'m always interested in discussing new opportunities or answering questions about my work. Feel free to reach out!'')) @
      contact_3 @
      (if hasEmail then (contact_4 @
          primaryColor portfolioData @
          contact_5 @
          escapeHtml (js (contactEmail portfolioData)) @
          contact_6 @
          secondaryColor portfolioData @
          contact_7 @
          primaryColor portfolioData @
          contact_8 @
          secondaryColor portfolioData @
          contact_9 @
          escapeHtml (js (contactEmail portfolioData)) @
          contact_10) else []) @
      contact_11 @
      (if hasLinkedin then (contact_12 @
          primaryColor portfolioData @
          contact_13 @
          escapeHtml (js (contactLinkedin portfolioData)) @
          contact_14 @
          secondaryColor portfolioData @
          contact_15 @
          primaryColor portfolioData @
          contact_16 @
          secondaryColor portfolioData @
          contact_17 @
          escapeHtml (JStr (linkedinText (contactLinkedin portfolioData))) @
          contact_18) else []) @
      contact_19 @
      (if hasPhone then (contact_20 @
          primaryColor portfolioData @
          contact_21 @
          escapeHtml (js (contactPhone portfolioData)) @
          contact_22 @
          secondaryColor portfolioData @
          contact_23 @
          primaryColor portfolioData @
          contact_24 @
          secondaryColor portfolioData @
          contact_25 @
          escapeHtml (js (contactPhone portfolioData)) @
          contact_26) else []) @
      contact_27 @
      (if hasGithub then (contact_28 @
          primaryColor portfolioData @
          contact_29 @
          escapeHtml (js (linksGithub portfolioData)) @
          contact_30 @
          secondaryColor portfolioData @
          contact_31 @
          primaryColor portfolioData @
          contact_32 @
          secondaryColor portfolioData @
          contact_33 @
          escapeHtml (JStr (githubText (linksGithub portfolioData))) @
          contact_34) else []) @
      contact_35 @
      (case contactAreasOfInterest portfolioData of None \<Rightarrow> [] | Some areasOfInterest \<Rightarrow> if length areasOfInterest > 0 then (contact_36 @
          concat (map (\<lambda>interest. (contact_37 @
              secondaryColor portfolioData @
              contact_38 @
              secondaryColor portfolioData @
              contact_39 @
              escapeHtml (JStr interest) @
              contact_40)) areasOfInterest) @
          contact_41) else []) @
      contact_42)))\<close>

subsection \<open>Footer\<close>

definition generateFooter :: "portfolioData \<Rightarrow> string" where
  \<open>generateFooter portfolioData =
     (let hasEmail = present (contactEmail portfolioData);
          hasLinkedin = present (contactLinkedin portfolioData);
          hasGithub = present (linksGithub portfolioData);
          footerText =
            (case pd_footerDescriptors portfolioData of
               None \<Rightarrow> escapeHtml (JStr (orElse (pd_title portfolioData) []))
             | Some footerDescriptors \<Rightarrow>
                if length footerDescriptors > 0 then
                  join '' | '' (filter (\<lambda>d. d \<noteq> []) (map (\<lambda>d. escapeHtml (JStr (trim d))) footerDescriptors))
                else escapeHtml (JStr (orElse (pd_title portfolioData) [])))
      in (footer_1 @
      primaryColor portfolioData @
      footer_2 @
      escapeHtml (JStr (orElse (pd_name portfolioData) '''')) @
      footer_3 @
      accentColor portfolioData @
      footer_4 @
      footerText @
      footer_5 @
      (if hasEmail then (footer_6 @
          escapeHtml (js (contactEmail portfolioData)) @
          footer_7 @
          accentColor portfolioData @
          footer_8 @
          accentColor portfolioData @
          footer_9) else []) @
      footer_10 @
      (if hasLinkedin then (footer_11 @
          escapeHtml (js (contactLinkedin portfolioData)) @
          footer_12 @
          accentColor portfolioData @
          footer_13 @
          accentColor portfolioData @
          footer_14) else []) @
      footer_15 @
      (if hasGithub then (footer_16 @
          escapeHtml (js (linksGithub portfolioData)) @
          footer_17 @
          accentColor portfolioData @
          footer_18 @
          accentColor portfolioData @
          footer_19) else []) @
      footer_20 @
      secondaryColor portfolioData @
      footer_21 @
      accentColor portfolioData @
      footer_22 @
      escapeHtml (JStr (orElse (pd_name portfolioData) '''')) @
      footer_23))\<close>

section \<open>Page assemblers\<close>

text \<open>The \<^verbatim>\<open>switch\<close> of \<^verbatim>\<open>generateCompleteHTML\<close>: the fragment of one section
  identifier.\<close>

definition sectionFragment :: "portfolioData \<Rightarrow> string \<Rightarrow> string" where
  \<open>sectionFragment portfolioData sectionId =
     (if sectionId = ''hero'' then generateHeroSection portfolioData
      else if sectionId = ''about'' then generateAboutSection portfolioData
      else if sectionId = ''skills'' then []
      else if sectionId = ''projects'' then generateProjectsSection portfolioData
      else if sectionId = ''timeline'' then generateTimelineSection portfolioData
      else if sectionId = ''contact'' then generateContactSection portfolioData
      else [])\<close>

text \<open>\<^verbatim>\<open>sectionOrder.map(sectionId => ...).join('\n')\<close>\<close>

definition generateSections :: "portfolioData \<Rightarrow> string" where
  \<open>generateSections portfolioData =
     join [CHR 0x0A] (map (sectionFragment portfolioData) (sectionOrder portfolioData))\<close>

definition generateCompleteHTML :: "portfolioData \<Rightarrow> string" where
  \<open>generateCompleteHTML portfolioData =
     (let sections = generateSections portfolioData in
      (page_1 @
      escapeHtml (JStr (orElse (pd_name portfolioData) ''Portfolio'')) @
      page_2 @
      dynamicCSS portfolioData @
      page_3 @
      primaryColor portfolioData @
      page_4 @
      secondaryColor portfolioData @
      page_5 @
      primaryColor portfolioData @
      page_6 @
      escapeHtml (JStr (orElse (pd_name portfolioData) ''Portfolio'')) @
      page_7 @
      primaryColor portfolioData @
      page_8 @
      primaryColor portfolioData @
      page_9 @
      primaryColor portfolioData @
      page_10 @
      (if referencesTrigger portfolioData then (page_11 @
          primaryColor portfolioData @
          page_12) else []) @
      page_13 @
      primaryColor portfolioData @
      page_14 @
      sections @
      page_15 @
      generateFooter portfolioData @
      page_16))\<close>

subsection \<open>The references page\<close>

text \<open>\<^verbatim>\<open>ref.name.split(' ').map((n) => n[0]).join('')\<close>: \<^verbatim>\<open>n[0]\<close> of an empty
  string is \<^verbatim>\<open>undefined\<close>, which \<^verbatim>\<open>join\<close> prints as nothing.\<close>

definition initialsOf :: "string \<Rightarrow> string" where
  \<open>initialsOf name = concat (map (take 1) (split '' '' name))\<close>

text \<open>The callback of \<^verbatim>\<open>portfolioData.references.map\<close>: it reads
  \<^verbatim>\<open>ref.name.split\<close>, a \<^verbatim>\<open>TypeError\<close> when \<^verbatim>\<open>name\<close> is absent.\<close>

definition referenceCard :: "portfolioData \<Rightarrow> reference \<Rightarrow> error + string" where
  \<open>referenceCard portfolioData ref =
     (case ref_name ref of
        None \<Rightarrow> Inl (TypeError ''Cannot read properties of undefined (reading \'split\')'')
      | Some name \<Rightarrow>
         (let initials = initialsOf name in
          Inr (refsPage_18 @
          primaryColor portfolioData @
          refsPage_19 @
          escapeHtml (JStr initials) @
          refsPage_20 @
          primaryColor portfolioData @
          refsPage_21 @
          escapeHtml (js (ref_name ref)) @
          refsPage_22 @
          secondaryColor portfolioData @
          refsPage_23 @
          escapeHtml (js (ref_title ref)) @
          refsPage_24 @
          escapeHtml (js (ref_company ref)) @
          refsPage_25 @
          escapeHtml (JStr (orElse (ref_relationship ref) '''')) @
          refsPage_26 @
          escapeHtml (JStr (orElse (ref_description ref) (orElse (ref_testimonial ref) ''''))) @
          refsPage_27 @
          secondaryColor portfolioData @
          refsPage_28 @
          escapeHtml (js (ref_email ref)) @
          refsPage_29 @
          secondaryColor portfolioData @
          refsPage_30 @
          escapeHtml (js (ref_email ref)) @
          refsPage_31 @
          (if present (ref_phone ref) then (refsPage_32 @
              secondaryColor portfolioData @
              refsPage_33 @
              escapeHtml (js (ref_phone ref)) @
              refsPage_34 @
              secondaryColor portfolioData @
              refsPage_35 @
              escapeHtml (js (ref_phone ref)) @
              refsPage_36) else []) @
          refsPage_37 @
          (if present (ref_linkedin ref) then (refsPage_38 @
              secondaryColor portfolioData @
              refsPage_39 @
              escapeHtml (js (ref_linkedin ref)) @
              refsPage_40 @
              secondaryColor portfolioData @
              refsPage_41 @
              escapeHtml (js (ref_linkedin ref)) @
              refsPage_42) else []) @
          refsPage_43)))\<close>

text \<open>\<^verbatim>\<open>Array.prototype.map\<close> with a callback that may throw: the first exception
  ends it.\<close>

fun mapE :: "('a \<Rightarrow> error + 'b) \<Rightarrow> 'a list \<Rightarrow> error + 'b list" where
  \<open>mapE f [] = Inr []\<close>
| "mapE f (x # xs) =
     (case f x of
        Inl e \<Rightarrow> Inl e
      | Inr y \<Rightarrow> (case mapE f xs of Inl e \<Rightarrow> Inl e | Inr ys \<Rightarrow> Inr (y # ys)))"

definition generateReferencesHTML :: "portfolioData \<Rightarrow> error + string" where
  \<open>generateReferencesHTML portfolioData =
     (case pd_references portfolioData of
        None \<Rightarrow> Inl (TypeError ''Cannot read properties of undefined (reading \'map\')'')
      | Some references \<Rightarrow>
         (case mapE (referenceCard portfolioData) references of
            Inl e \<Rightarrow> Inl e
          | Inr cards \<Rightarrow> Inr (refsPage_1 @
      escapeHtml (js (pd_name portfolioData)) @
      refsPage_2 @
      primaryColor portfolioData @
      refsPage_3 @
      secondaryColor portfolioData @
      refsPage_4 @
      primaryColor portfolioData @
      refsPage_5 @
      escapeHtml (js (pd_name portfolioData)) @
      refsPage_6 @
      primaryColor portfolioData @
      refsPage_7 @
      primaryColor portfolioData @
      refsPage_8 @
      primaryColor portfolioData @
      refsPage_9 @
      primaryColor portfolioData @
      refsPage_10 @
      primaryColor portfolioData @
      refsPage_11 @
      primaryColor portfolioData @
      refsPage_12 @
      secondaryColor portfolioData @
      refsPage_13 @
      (if present (pd_referencesUrl portfolioData) then (refsPage_14 @
          escapeHtml (js (pd_referencesUrl portfolioData)) @
          refsPage_15 @
          primaryColor portfolioData @
          refsPage_16) else []) @
      refsPage_17 @
      concat cards @
      refsPage_44 @
      primaryColor portfolioData @
      refsPage_45 @
      secondaryColor portfolioData @
      refsPage_46 @
      primaryColor portfolioData @
      refsPage_47 @
      primaryColor portfolioData @
      refsPage_48 @
      escapeHtml (js (pd_name portfolioData)) @
      refsPage_49 @
      accentColor portfolioData @
      refsPage_50 @
      escapeHtml (JStr (orElse (pd_title portfolioData) '''')) @
      refsPage_51 @
      (if present (contactEmail portfolioData) then (refsPage_52 @
          escapeHtml (js (contactEmail portfolioData)) @
          refsPage_53 @
          accentColor portfolioData @
          refsPage_54 @
          accentColor portfolioData @
          refsPage_55) else []) @
      refsPage_56 @
      (if present (contactPhone portfolioData) then (refsPage_57 @
          escapeHtml (js (contactPhone portfolioData)) @
          refsPage_58 @
          accentColor portfolioData @
          refsPage_59 @
          accentColor portfolioData @
          refsPage_60) else []) @
      refsPage_61 @
      (if present (contactLinkedin portfolioData) then (refsPage_62 @
          escapeHtml (js (contactLinkedin portfolioData)) @
          refsPage_63 @
          accentColor portfolioData @
          refsPage_64 @
          accentColor portfolioData @
          refsPage_65) else []) @
      refsPage_66)))\<close>

subsection \<open>The projects page\<close>

definition generateProjectsHTML :: "portfolioData \<Rightarrow> error + string" where
  \<open>generateProjectsHTML portfolioData =
     (case pd_projects portfolioData of
        None \<Rightarrow> Inl (TypeError ''Cannot read properties of undefined (reading \'map\')'')
      | Some projects \<Rightarrow> Inr (projectsPage_1 @
      escapeHtml (js (pd_name portfolioData)) @
      projectsPage_2 @
      primaryColor portfolioData @
      projectsPage_3 @
      secondaryColor portfolioData @
      projectsPage_4 @
      primaryColor portfolioData @
      projectsPage_5 @
      escapeHtml (js (pd_name portfolioData)) @
      projectsPage_6 @
      primaryColor portfolioData @
      projectsPage_7 @
      primaryColor portfolioData @
      projectsPage_8 @
      primaryColor portfolioData @
      projectsPage_9 @
      primaryColor portfolioData @
      projectsPage_10 @
      primaryColor portfolioData @
      projectsPage_11 @
      primaryColor portfolioData @
      projectsPage_12 @
      secondaryColor portfolioData @
      projectsPage_13 @
      escapeHtml (JStr (orElse (pd_projectsDescription portfolioData) ''Explore my recent work and projects'')) @
      projectsPage_14 @
      concat (map (\<lambda>project. (projectsPage_15 @
          primaryColor portfolioData @
          projectsPage_16 @
          escapeHtml (js (proj_title project)) @
          projectsPage_17 @
          escapeHtml (js (proj_description project)) @
          projectsPage_18 @
          (case proj_technologies project of None \<Rightarrow> [] | Some technologies \<Rightarrow> if length technologies > 0 then (projectsPage_19 @
              concat (map (\<lambda>tech. (projectsPage_20 @
                  accentColor portfolioData @
                  projectsPage_21 @
                  primaryColor portfolioData @
                  projectsPage_22 @
                  escapeHtml (JStr tech) @
                  projectsPage_23)) technologies) @
              projectsPage_24) else []) @
          projectsPage_25 @
          (if present (proj_githubUrl project) then (projectsPage_26 @
              escapeHtml (js (proj_githubUrl project)) @
              projectsPage_27 @
              primaryColor portfolioData @
              projectsPage_28) else []) @
          projectsPage_29 @
          (if present (proj_liveUrl project) then (projectsPage_30 @
              escapeHtml (js (proj_liveUrl project)) @
              projectsPage_31 @
              primaryColor portfolioData @
              projectsPage_32 @
              primaryColor portfolioData @
              projectsPage_33) else []) @
          projectsPage_34)) projects) @
      projectsPage_35 @
      primaryColor portfolioData @
      projectsPage_36 @
      escapeHtml (js (pd_name portfolioData)) @
      projectsPage_37 @
      accentColor portfolioData @
      projectsPage_38 @
      escapeHtml (JStr (orElse (pd_title portfolioData) '''')) @
      projectsPage_39))\<close>

section \<open>The script\<close>

text \<open>
  After parsing, the script writes \<^verbatim>\<open>index.html\<close>, then \<^verbatim>\<open>references.html\<close> and
  \<^verbatim>\<open>projects.html\<close> under their conditions. A run is the list of the files written,
  in order, and the exception that ended it, if one did. Writing a file is taken to
  succeed.
\<close>

definition writeProjects :: "portfolioData \<Rightarrow> (string \<times> string) list \<Rightarrow> (string \<times> string) list \<times> error option" where
  \<open>writeProjects portfolioData files =
     (if nonEmpty (pd_projects portfolioData) then
        (case generateProjectsHTML portfolioData of
           Inl e \<Rightarrow> (files, Some e)
         | Inr projectsContent \<Rightarrow> (files @ [(''projects.html'', projectsContent)], None))
      else (files, None))\<close>

definition runScript :: "portfolioData \<Rightarrow> (string \<times> string) list \<times> error option" where
  \<open>runScript portfolioData =
     (let htmlContent = generateCompleteHTML portfolioData;
          files = [(''index.html'', htmlContent)]
      in if referencesTrigger portfolioData then
           (case generateReferencesHTML portfolioData of
              Inl e \<Rightarrow> (files, Some e)
            | Inr referencesContent \<Rightarrow>
               writeProjects portfolioData (files @ [(''references.html'', referencesContent)]))
         else writeProjects portfolioData files)\<close>

text \<open>Whether a run wrote the file of that name.\<close>

definition wrote :: "string \<Rightarrow> (string \<times> string) list \<times> error option \<Rightarrow> bool" where
  \<open>wrote file run = (file \<in> set (map fst (fst run)))\<close>

section \<open>Reference definitions and example documents\<close>

text \<open>The reading the specification gives of the contact link texts: a leading prefix
  is stripped, and nothing else.\<close>

definition stripPrefix :: "string \<Rightarrow> string \<Rightarrow> string" where
  "stripPrefix p s = (if prefix p s then drop (length p) s else s)"

definition spec_linkedinText :: "string \<Rightarrow> string" where
  "spec_linkedinText v = stripPrefix ''linkedin.com/in/'' (stripPrefix ''https://'' v)"

definition spec_githubText :: "string \<Rightarrow> string" where
  "spec_githubText v =
     stripPrefix ''github.com/'' (stripPrefix ''http://'' (stripPrefix ''https://'' v))"


text \<open>The specification's timeline heading for the recognised types that are present.\<close>

definition spec_timelineTitle :: "timelineEntry list \<Rightarrow> string" where
  "spec_timelineTitle timelineData =
     (case map typeName
             (filter (\<lambda>t. Some t \<in> set (map tl_type timelineData))
                [''education'', ''experience'', ''research'']) of
        [a] \<Rightarrow> a
      | [a, b] \<Rightarrow> a @ '' & '' @ b
      | [a, b, c] \<Rightarrow> a @ '', '' @ b @ '', & '' @ c
      | _ \<Rightarrow> ''Education, Experience & Research'')"

text \<open>The document \<^verbatim>\<open>{}\<close>.\<close>

definition emptyDocument :: portfolioData where
  "emptyDocument =
     \<lparr>pd_name = None, pd_title = None, pd_bio = None, pd_themeColors = None,
      pd_sectionOrder = None, pd_aboutText = None, pd_skills = None,
      pd_skillsDisplayMode = None, pd_projects = None, pd_timeline = None,
      pd_contact = None, pd_links = None, pd_resumeUrl = None, pd_referencesUrl = None,
      pd_references = None, pd_footerDescriptors = None, pd_projectsDescription = None,
      pd_contactIntro = None, pd_headshotImage = None\<rparr>"

text \<open>\<^verbatim>\<open>{"type": "volunteer", "year": 2020, "title": "Helper", "organization": "Shelter"}\<close>\<close>

definition volunteerEntry :: timelineEntry where
  "volunteerEntry =
     \<lparr>tl_type = Some ''volunteer'', tl_year = JNum 2020, tl_title = Some ''Helper'',
      tl_organization = Some ''Shelter'', tl_description = None\<rparr>"

definition timelineEntryOf :: "string \<Rightarrow> timelineEntry" where
  "timelineEntryOf t =
     \<lparr>tl_type = Some t, tl_year = JNum 2020, tl_title = None, tl_organization = None,
      tl_description = None\<rparr>"











text \<open>\<^verbatim>\<open>{"referencesUrl": "refs.pdf"}\<close>: a references file, and no list of references.\<close>

definition documentReferencesUrl :: portfolioData where
  "documentReferencesUrl = emptyDocument\<lparr>pd_referencesUrl := Some ''refs.pdf''\<rparr>"

text \<open>\<^verbatim>\<open>{"references": [{"title": "Manager"}]}\<close>: a reference without a name.\<close>

definition namelessReference :: reference where
  "namelessReference =
     \<lparr>ref_name = None, ref_title = Some ''Manager'', ref_company = None,
      ref_relationship = None, ref_description = None, ref_testimonial = None,
      ref_email = None, ref_phone = None, ref_linkedin = None\<rparr>"

definition documentNamelessReference :: portfolioData where
  "documentNamelessReference = emptyDocument\<lparr>pd_references := Some [namelessReference]\<rparr>"

text \<open>\<^verbatim>\<open>{"references": [{"name": "Ada Lovelace"}]}\<close>\<close>

definition namedReference :: reference where
  "namedReference = namelessReference\<lparr>ref_name := Some ''Ada Lovelace''\<rparr>"

definition documentNamedReference :: portfolioData where
  "documentNamedReference = emptyDocument\<lparr>pd_references := Some [namedReference]\<rparr>"

section \<open>Properties of the string functions\<close>

lemma replaceAll_absent: "c \<notin> set s \<Longrightarrow> replaceAll c r s = s"
  by (induction s) (auto simp: replaceAll_def)

lemma replaceFirst_prefix: "prefix p s \<Longrightarrow> replaceFirst p r s = r @ drop (length p) s"
  by (cases s) auto

lemma special_not_whitespace:
  "\<not> isWhiteSpace CHR ''&''" "\<not> isWhiteSpace CHR ''<''" "\<not> isWhiteSpace CHR ''>''"
  "\<not> isWhiteSpace (CHR 0x22)" "\<not> isWhiteSpace (CHR 0x27)"
  by (simp_all add: isWhiteSpace_def)

lemma whitespace_not_special:
  assumes "list_all isWhiteSpace s"
  shows "CHR ''&'' \<notin> set s" and "CHR ''<'' \<notin> set s" and "CHR ''>'' \<notin> set s"
    and "CHR 0x22 \<notin> set s" and "CHR 0x27 \<notin> set s"
  using assms by (induction s) (auto simp: special_not_whitespace)

lemma escapeHtml_whitespace:
  assumes "list_all isWhiteSpace s"
  shows "escapeHtml (JStr s) = s"
proof (cases "s = []")
  case True
  then show ?thesis by (simp add: escapeHtml_def)
next
  case False
  then show ?thesis
    using whitespace_not_special [OF assms]
    by (simp add: escapeHtml_def replaceAll_absent)
qed

lemma escapeHtml_falsy: "\<not> truthy v \<Longrightarrow> escapeHtml v = []"
  by (simp add: escapeHtml_def)

text \<open>
  \<^bold>\<open>C2\<close> (as amended). \<^verbatim>\<open>escapeHtml\<close> returns the empty string for the empty string and
  for every absent or falsy input (\<^verbatim>\<open>undefined\<close>, \<^verbatim>\<open>null\<close>, \<^verbatim>\<open>false\<close>, \<open>0\<close>), never
  the words \<^verbatim>\<open>undefined\<close> or \<^verbatim>\<open>null\<close>. It does not trim: a string that consists only of
  white space is returned as it is, so the result is empty only when the string is.
\<close>

theorem escapeHtml_empty_falsy_whitespace:
  "escapeHtml (JStr []) = []
   \<and> (\<not> truthy v \<longrightarrow> escapeHtml v = [])
   \<and> escapeHtml JUndefined = [] \<and> escapeHtml JNull = []
   \<and> (list_all isWhiteSpace s \<longrightarrow> escapeHtml (JStr s) = s)"
  by (simp add: escapeHtml_whitespace escapeHtml_falsy)

theorem escapeHtml_empty_falsy_whitespace_witness:
  "\<not> truthy (JNum 0) \<and> escapeHtml (JNum 0) = []
   \<and> list_all isWhiteSpace [CHR 0x20, CHR 0x09] \<and> escapeHtml (JStr [CHR 0x20, CHR 0x09]) = [CHR 0x20, CHR 0x09]"
  using escapeHtml_empty_falsy_whitespace [of "JNum 0" "[CHR 0x20, CHR 0x09]"]
  by (simp add: isWhiteSpace_def)

text \<open>As the specification states it, the property fails: the string of one space is all white space, and
  \<^verbatim>\<open>escapeHtml\<close> returns it, not the empty string.\<close>

theorem escapeHtml_whitespace_counterexample:
  "list_all isWhiteSpace '' '' \<and> escapeHtml (JStr '' '') = '' '' \<and> escapeHtml (JStr '' '') \<noteq> []"
  by (simp add: isWhiteSpace_def escapeHtml_def replaceAll_def)

text \<open>The five characters are escaped, so no raw angle bracket is left.\<close>

lemma escapeHtml_script:
  "escapeHtml (JStr ''<script>'') = ''&lt;script&gt;''"
  by (simp add: escapeHtml_def replaceAll_def)

text \<open>
  \<^bold>\<open>C10\<close> (as amended). The contact section shows, escaped, the linkedin value with the
  first occurrence of \<^verbatim>\<open>https://\<close> and then the first occurrence of
  \<^verbatim>\<open>linkedin.com/in/\<close> removed, and the github value with the first occurrences of
  \<^verbatim>\<open>https://\<close>, \<^verbatim>\<open>http://\<close> and \<^verbatim>\<open>github.com/\<close> removed in that order, wherever they
  stand. For a value \<^verbatim>\<open>https://linkedin.com/in/\<close>\<open>r\<close> the text is \<open>r\<close>; for a value
  \<^verbatim>\<open>https://github.com/\<close>\<open>r\<close> it is \<open>r\<close> without its first \<^verbatim>\<open>http://\<close>; so both
  \<^verbatim>\<open>https://github.com/someone\<close> and \<^verbatim>\<open>https://linkedin.com/in/someone\<close> show
  \<^verbatim>\<open>someone\<close>.
\<close>

theorem contact_link_texts:
  "linkedinText (Some v) = replaceFirst ''linkedin.com/in/'' [] (replaceFirst ''https://'' [] v)
   \<and> githubText (Some v) =
       replaceFirst ''github.com/'' [] (replaceFirst ''http://'' [] (replaceFirst ''https://'' [] v))
   \<and> linkedinText (Some (''https://linkedin.com/in/'' @ r)) = r
   \<and> githubText (Some (''https://github.com/'' @ r)) = replaceFirst ''http://'' [] r
   \<and> linkedinText (Some ''https://linkedin.com/in/someone'') = ''someone''
   \<and> githubText (Some ''https://github.com/someone'') = ''someone''"
proof -
  have a: "linkedinText (Some v) = replaceFirst ''linkedin.com/in/'' [] (replaceFirst ''https://'' [] v)"
    by (cases v) (simp_all add: linkedinText_def orElse_def)
  have b: "githubText (Some v) =
       replaceFirst ''github.com/'' [] (replaceFirst ''http://'' [] (replaceFirst ''https://'' [] v))"
    by (cases v) (simp_all add: githubText_def orElse_def)
  have c: "linkedinText (Some (''https://linkedin.com/in/'' @ r)) = r" for r
    by (simp add: linkedinText_def orElse_def)
  have d: "githubText (Some (''https://github.com/'' @ r)) = replaceFirst ''http://'' [] r" for r
    by (simp add: githubText_def orElse_def)
  have e: "linkedinText (Some ''https://linkedin.com/in/someone'') = ''someone''"
    using c [of "''someone''"] by simp
  have f: "githubText (Some ''https://github.com/someone'') = ''someone''"
    using d [of "''someone''"] by simp
  from a b c d e f show ?thesis by blast
qed

theorem contact_link_texts_witness:
  "linkedinText (Some ''https://linkedin.com/in/ada'') = ''ada''
   \<and> githubText (Some ''https://github.com/ada'') = ''ada''"
  using contact_link_texts [of "''x''" "''ada''"] by simp

text \<open>As the specification states it, the property fails where a pattern is not a leading prefix: of
  \<^verbatim>\<open>www.linkedin.com/in/someone\<close> nothing is a prefix to strip, and the program shows
  \<^verbatim>\<open>www.someone\<close>; of \<^verbatim>\<open>git://github.com/someone\<close> it shows \<^verbatim>\<open>git://someone\<close>.\<close>

theorem contact_link_texts_counterexample:
  "spec_linkedinText ''www.linkedin.com/in/someone'' = ''www.linkedin.com/in/someone''
   \<and> linkedinText (Some ''www.linkedin.com/in/someone'') = ''www.someone''
   \<and> spec_githubText ''git://github.com/someone'' = ''git://github.com/someone''
   \<and> githubText (Some ''git://github.com/someone'') = ''git://someone''"
  by (simp add: spec_linkedinText_def spec_githubText_def stripPrefix_def linkedinText_def
      githubText_def orElse_def)

section \<open>Properties of the timeline heading\<close>

lemma distinctValues_set_aux:
  "set (foldl (\<lambda>seen x. if x \<in> set seen then seen else seen @ [x]) acc xs) = set acc \<union> set xs"
  by (induction xs arbitrary: acc) auto

lemma distinctValues_set: "set (distinctValues xs) = set xs"
  by (simp add: distinctValues_def distinctValues_set_aux)

lemma distinctValues_empty: "distinctValues xs = [] \<longleftrightarrow> xs = []"
  using distinctValues_set [of xs] by (metis set_empty)

text \<open>Where a recognised type is present, the heading is the specification's: the
  types present, in the preferred order, joined by the rules for one, two and three.\<close>

lemma generateTimelineTitle_recognised:
  assumes "Some ''education'' \<in> set (map tl_type timelineData)
           \<or> Some ''experience'' \<in> set (map tl_type timelineData)
           \<or> Some ''research'' \<in> set (map tl_type timelineData)"
  shows "generateTimelineTitle timelineData = spec_timelineTitle timelineData"
proof -
  have ne: "distinctValues (map tl_type timelineData) \<noteq> []"
    using assms by (auto simp: distinctValues_empty)
  show ?thesis
    using assms ne
    by (auto simp: generateTimelineTitle_def spec_timelineTitle_def Let_def
        distinctValues_set typeName_def at_def interpolate_def)
qed

text \<open>
  \<^bold>\<open>C1\<close>. A timeline whose only entry has the type \<^verbatim>\<open>volunteer\<close> is not empty, so the
  fallback of \<^verbatim>\<open>generateTimelineTitle\<close>, which tests the distinct types before it
  filters them, is not taken; no recognised type is left, and the branch written for
  three types prints \<^verbatim>\<open>, & undefined\<close>: the heading is not the fallback title
  \<^verbatim>\<open>Education, Experience & Research\<close>.
\<close>

theorem generateTimelineTitle_unrecognised_type:
  "generateTimelineTitle [volunteerEntry] = '', & undefined''
   \<and> generateTimelineTitle [volunteerEntry] \<noteq> ''Education, Experience & Research''
   \<and> escapeHtml (JStr (generateTimelineTitle [volunteerEntry])) = '', &amp; undefined''"
  by (simp add: generateTimelineTitle_def volunteerEntry_def distinctValues_def Let_def
      typeName_def at_def interpolate_def escapeHtml_def replaceAll_def)

text \<open>The headings of the specification's examples.\<close>

lemma generateTimelineTitle_examples:
  "generateTimelineTitle [timelineEntryOf ''education''] = ''Education''"
  "generateTimelineTitle [timelineEntryOf ''education'', timelineEntryOf ''experience'']
     = ''Education & Experience''"
  "generateTimelineTitle [timelineEntryOf ''research'', timelineEntryOf ''education'']
     = ''Education & Research''"
  "generateTimelineTitle
     [timelineEntryOf ''experience'', timelineEntryOf ''research'', timelineEntryOf ''education'',
      timelineEntryOf ''research'']
     = ''Education, Experience, & Research''"
  by (simp_all add: generateTimelineTitle_def timelineEntryOf_def distinctValues_def Let_def
      typeName_def at_def interpolate_def)

section \<open>Properties of the skills renderers\<close>




subsection \<open>The rows of category cards\<close>













section \<open>Properties of the main page's sections\<close>



text \<open>The main page holds these sections between its navigation and its footer.\<close>

lemma ex_prefix_base: "\<exists>b. xs @ r = b @ r"
  by blast

lemma ex_prefix_step: "\<exists>b. ys = b @ r \<Longrightarrow> \<exists>b. xs @ ys = b @ r"
  by (metis append_assoc)

lemma generateCompleteHTML_sections:
  "\<exists>before. generateCompleteHTML portfolioData =
     before @ generateSections portfolioData @ page_15 @ generateFooter portfolioData @ page_16"
  unfolding generateCompleteHTML_def Let_def
  by (rule ex_prefix_base | rule ex_prefix_step)+

subsection \<open>What the fragments depend on\<close>



















section \<open>Properties of the references page\<close>

lemma trim_Nil: "trim [] = []"
  by (simp add: trim_def)

lemma referencesTrigger_iff:
  "referencesTrigger portfolioData \<longleftrightarrow>
     (\<exists>url. pd_referencesUrl portfolioData = Some url \<and> trim url \<noteq> [])
     \<or> (\<exists>references. pd_references portfolioData = Some references \<and> references \<noteq> [])"
proof -
  have u: "(present (pd_referencesUrl portfolioData)
            \<and> trim (orElse (pd_referencesUrl portfolioData) []) \<noteq> [])
      \<longleftrightarrow> (\<exists>url. pd_referencesUrl portfolioData = Some url \<and> trim url \<noteq> [])"
    by (cases "pd_referencesUrl portfolioData") (auto simp: present_def orElse_def trim_Nil)
  have r: "nonEmpty (pd_references portfolioData)
      \<longleftrightarrow> (\<exists>references. pd_references portfolioData = Some references \<and> references \<noteq> [])"
    by (cases "pd_references portfolioData") (simp_all add: nonEmpty_def)
  show ?thesis
    unfolding referencesTrigger_def u r ..
qed

lemma mapE_ok_iff: "(\<exists>ys. mapE f xs = Inr ys) \<longleftrightarrow> list_all (\<lambda>x. \<exists>y. f x = Inr y) xs"
  by (induction xs) (auto split: sum.splits)

lemma referenceCard_ok_iff:
  "(\<exists>card. referenceCard portfolioData ref = Inr card) \<longleftrightarrow> ref_name ref \<noteq> None"
  by (auto simp: referenceCard_def Let_def split: option.splits)

text \<open>The references page is rendered exactly for a document that has a list of
  references in which every reference has a name; otherwise rendering it raises.\<close>

lemma generateReferencesHTML_ok_iff:
  "(\<exists>page. generateReferencesHTML portfolioData = Inr page) \<longleftrightarrow>
     (\<exists>references. pd_references portfolioData = Some references
        \<and> list_all (\<lambda>ref. ref_name ref \<noteq> None) references)"
proof (cases "pd_references portfolioData")
  case None
  then show ?thesis by (simp add: generateReferencesHTML_def)
next
  case (Some references)
  have "(\<exists>page. generateReferencesHTML portfolioData = Inr page)
      \<longleftrightarrow> (\<exists>cards. mapE (referenceCard portfolioData) references = Inr cards)"
    using Some by (auto simp: generateReferencesHTML_def split: sum.splits)
  then show ?thesis
    using Some by (simp add: mapE_ok_iff referenceCard_ok_iff)
qed

text \<open>The file \<^verbatim>\<open>references.html\<close> is written exactly when the condition holds and the
  page could be rendered.\<close>

lemma wrote_references_iff:
  "wrote ''references.html'' (runScript portfolioData) \<longleftrightarrow>
     referencesTrigger portfolioData \<and> (\<exists>page. generateReferencesHTML portfolioData = Inr page)"
  by (auto simp: wrote_def runScript_def writeProjects_def Let_def split: sum.splits)

text \<open>
  \<^bold>\<open>C7\<close>. The condition of the references page holds for a document that has a
  \<^verbatim>\<open>referencesUrl\<close> and no \<^verbatim>\<open>references\<close>, and \<^verbatim>\<open>generateReferencesHTML\<close> then reads
  \<^verbatim>\<open>portfolioData.references.map\<close> of \<^verbatim>\<open>undefined\<close>: a \<^verbatim>\<open>TypeError\<close>, and no page. It
  holds as well for a list with a reference that has no \<^verbatim>\<open>name\<close>, where
  \<^verbatim>\<open>ref.name.split\<close> raises.
\<close>

theorem generateReferencesHTML_raises:
  \<open>referencesTrigger documentReferencesUrl
   \<and> generateReferencesHTML documentReferencesUrl
       = Inl (TypeError ''Cannot read properties of undefined (reading \'map\')'')
   \<and> referencesTrigger documentNamelessReference
   \<and> generateReferencesHTML documentNamelessReference
       = Inl (TypeError ''Cannot read properties of undefined (reading \'split\')'')\<close>
  by (simp add: referencesTrigger_def present_def orElse_def nonEmpty_def trim_def isWhiteSpace_def
      generateReferencesHTML_def referenceCard_def documentReferencesUrl_def
      documentNamelessReference_def namelessReference_def emptyDocument_def)

text \<open>
  \<^bold>\<open>C6\<close>. For the document with a \<^verbatim>\<open>referencesUrl\<close> and no \<^verbatim>\<open>references\<close> the condition
  of the references page holds, and the run writes \<^verbatim>\<open>index.html\<close> and ends with the
  \<^verbatim>\<open>TypeError\<close> of \<^verbatim>\<open>generateReferencesHTML\<close>: \<^verbatim>\<open>references.html\<close> is not written.
\<close>

theorem runScript_references_not_written:
  \<open>referencesTrigger documentReferencesUrl
   \<and> runScript documentReferencesUrl
       = ([(''index.html'', generateCompleteHTML documentReferencesUrl)],
          Some (TypeError ''Cannot read properties of undefined (reading \'map\')''))
   \<and> \<not> wrote ''references.html'' (runScript documentReferencesUrl)\<close>
proof -
  have t: "referencesTrigger documentReferencesUrl"
    by (simp add: referencesTrigger_def present_def orElse_def trim_def isWhiteSpace_def
        documentReferencesUrl_def)
  have g: \<open>generateReferencesHTML documentReferencesUrl
       = Inl (TypeError ''Cannot read properties of undefined (reading \'map\')'')\<close>
    by (simp add: generateReferencesHTML_def documentReferencesUrl_def emptyDocument_def)
  have r: \<open>runScript documentReferencesUrl
       = ([(''index.html'', generateCompleteHTML documentReferencesUrl)],
          Some (TypeError ''Cannot read properties of undefined (reading \'map\')''))\<close>
    by (simp add: runScript_def Let_def t g)
  from t r show ?thesis by (simp add: wrote_def)
qed

text \<open>With a named reference the page is rendered and the file written.\<close>

lemma runScript_references_written:
  "wrote ''references.html'' (runScript documentNamedReference)"
  by (simp add: wrote_references_iff referencesTrigger_iff generateReferencesHTML_ok_iff
      documentNamedReference_def namedReference_def namelessReference_def emptyDocument_def)


end
